theory Spec2Isabelle
  imports Complex_Main
begin

section \<open>Python values and exceptions\<close>

text \<open>
  The weather bot is Python. Exceptions are values of \<open>py_error\<close> and a computation that
  may raise returns \<open>py_error + 'a\<close> (\<open>Inl\<close> is the raise). Python numbers are modelled
  as exact rationals: an \<open>int\<close> is a rational with denominator one, a \<open>float\<close> is the
  rational it denotes. Rounding of binary floating point is not modelled; every concrete
  input evaluated below uses dyadic values, on which the float operations of the source
  are exact.
\<close>

datatype py_error = AttributeError | TypeError | ValueError | IndexError | KeyError

text \<open>\<open>int(x)\<close> on a number truncates toward zero.\<close>

definition py_int :: "rat \<Rightarrow> int" where
  "py_int q = (if 0 \<le> q then \<lfloor>q\<rfloor> else - \<lfloor>- q\<rfloor>)"

text \<open>\<open>xs[i]\<close>: negative indices count from the end, out of range raises.\<close>

definition list_get :: "'a list \<Rightarrow> int \<Rightarrow> py_error + 'a" where
  "list_get xs i =
     (if 0 \<le> i \<and> i < int (length xs) then Inr (xs ! nat i)
      else if i < 0 \<and> - int (length xs) \<le> i then Inr (xs ! nat (int (length xs) + i))
      else Inl IndexError)"

section \<open>JSON values and the operations of Python on them\<close>

text \<open>
  A decoded provider response, and every dictionary the weather service builds, is a value
  of \<open>json\<close>. Python's \<open>None\<close> is \<open>JNull\<close>. A dictionary is an association list
  read with \<open>map_of\<close>; the dictionaries built by the service list their keys in the order
  of the source's dictionary display.
\<close>

datatype json =
    JNull
  | JBool bool
  | JNum rat
  | JStr string
  | JList "json list"
  | JDict "(string \<times> json) list"

text \<open>Truth value of a value in \<open>if not data\<close> and \<open>if forecast_data\<close>.\<close>

fun py_truthy :: "json \<Rightarrow> bool" where
  "py_truthy JNull = False"
| "py_truthy (JBool b) = b"
| "py_truthy (JNum q) = (q \<noteq> 0)"
| "py_truthy (JStr s) = (s \<noteq> [])"
| "py_truthy (JList xs) = (xs \<noteq> [])"
| "py_truthy (JDict kvs) = (kvs \<noteq> [])"

text \<open>\<open>x.get(k, d)\<close>: only a dictionary has the method.\<close>

fun dict_get :: "json \<Rightarrow> string \<Rightarrow> json \<Rightarrow> py_error + json" where
  "dict_get (JDict kvs) k d = Inr (case map_of kvs k of Some v \<Rightarrow> v | None \<Rightarrow> d)"
| "dict_get _ k d = Inl AttributeError"

text \<open>\<open>len(x)\<close> and \<open>x[i]\<close> for an integer \<open>i\<close>.\<close>

fun py_len :: "json \<Rightarrow> py_error + nat" where
  "py_len (JList xs) = Inr (length xs)"
| "py_len (JStr s) = Inr (length s)"
| "py_len (JDict kvs) = Inr (length kvs)"
| "py_len _ = Inl TypeError"

fun py_index :: "json \<Rightarrow> int \<Rightarrow> py_error + json" where
  "py_index (JList xs) i = list_get xs i"
| "py_index (JStr s) i = list_get (map (\<lambda>c. JStr [c]) s) i"
| "py_index (JDict kvs) i = Inl KeyError"
| "py_index _ i = Inl TypeError"

text \<open>The items a \<open>for\<close> loop over a value visits.\<close>

fun py_iter :: "json \<Rightarrow> py_error + json list" where
  "py_iter (JList xs) = Inr xs"
| "py_iter (JStr s) = Inr (map (\<lambda>c. JStr [c]) s)"
| "py_iter (JDict kvs) = Inr (map (\<lambda>kv. JStr (fst kv)) kvs)"
| "py_iter _ = Inl TypeError"

text \<open>
  A number in arithmetic. \<open>bool\<close> is a subtype of \<open>int\<close>. In \<open>get_air_quality\<close> every
  other kind of value ends in \<open>TypeError\<close>: \<open>/\<close> raises at once, and a string or list
  doubled by \<open>* 2\<close> raises when \<open>max\<close> compares it with a number.
\<close>

fun as_number :: "json \<Rightarrow> py_error + rat" where
  "as_number (JNum q) = Inr q"
| "as_number (JBool b) = Inr (if b then 1 else 0)"
| "as_number _ = Inl TypeError"

text \<open>\<open>round(x, 2)\<close>: to two decimals, ties to even.\<close>

definition py_round2 :: "rat \<Rightarrow> rat" where
  "py_round2 q =
     (let s = q * 100; f = \<lfloor>s\<rfloor>; r = s - of_int f
      in of_int (if r < 1 / 2 then f else if 1 / 2 < r then f + 1
                 else if even f then f else f + 1) / 100)"

definition and_then :: "py_error + 'a \<Rightarrow> ('a \<Rightarrow> py_error + 'b) \<Rightarrow> py_error + 'b" where
  "and_then m f = (case m of Inl e \<Rightarrow> Inl e | Inr v \<Rightarrow> f v)"

section \<open>Characters\<close>

text \<open>
  A \<open>char\<close> is a code point below 256. \<open>is_space\<close> is \<open>str.isspace\<close> and the class
  \<open>\s\<close> of \<open>re\<close> on those code points; \<open>is_digit\<close> is \<open>\d\<close> on them.
\<close>

definition is_digit :: "char \<Rightarrow> bool" where
  "is_digit c = (c \<in> set ''0123456789'')"

definition is_space :: "char \<Rightarrow> bool" where
  "is_space c =
     (c \<in> set [CHR 0x09, CHR 0x0A, CHR 0x0B, CHR 0x0C, CHR 0x0D, CHR 0x1C, CHR 0x1D, CHR 0x1E,
                CHR 0x1F, CHR 0x20, CHR 0x85, CHR 0xA0])"

text \<open>The value of a digit: its position in \<open>0123456789\<close>.\<close>

definition digit_val :: "char \<Rightarrow> nat" where
  "digit_val c = length (takeWhile (\<lambda>d. d \<noteq> c) ''0123456789'')"

text \<open>The value of a run of decimal digits, most significant first.\<close>

definition digits_val :: "string \<Rightarrow> int" where
  "digits_val s = foldl (\<lambda>a c. 10 * a + int (digit_val c)) 0 s"

text \<open>\<open>s.strip()\<close>.\<close>

definition strip :: "string \<Rightarrow> string" where
  "strip s = rev (dropWhile is_space (rev (dropWhile is_space s)))"

section \<open>datetime.strptime and strftime\<close>

text \<open>
  \<open>datetime.strptime\<close> turns its format into a regular expression and matches it at the
  start of the string: \<open>%Y\<close> is \<open>\d\d\d\d\<close>, \<open>%m\<close> is \<open>1[0-2]|0[1-9]|[1-9]\<close>, \<open>%d\<close> is
  \<open>3[01]|[12]\d|0[1-9]|[1-9]| [1-9]\<close>, \<open>%H\<close> is \<open>2[0-3]|[0-1]\d|\d\<close>, \<open>%M\<close> is
  \<open>[0-5]\d|\d\<close>, a blank of the format is \<open>\s+\<close>. Text left over after the match, a
  day the month does not have and the year 0 raise \<open>ValueError\<close>. An alternative is a
  sequence of character classes; the first alternative that matches is taken. Each field
  is followed by a character no digit matches (or by the end of the pattern), so no later
  alternative can succeed where the first that matches fails.
\<close>

fun match_classes :: "(char \<Rightarrow> bool) list \<Rightarrow> string \<Rightarrow> (string \<times> string) option" where
  "match_classes [] s = Some ([], s)"
| "match_classes (p # ps) [] = None"
| "match_classes (p # ps) (c # cs) =
     (if p c then
        (case match_classes ps cs of
           None \<Rightarrow> None
         | Some (m, r) \<Rightarrow> Some (c # m, r))
      else None)"

fun first_alt :: "(char \<Rightarrow> bool) list list \<Rightarrow> string \<Rightarrow> (string \<times> string) option" where
  "first_alt [] s = None"
| "first_alt (a # as) s =
     (case match_classes a s of
        Some r \<Rightarrow> Some r
      | None \<Rightarrow> first_alt as s)"

definition one_of :: "string \<Rightarrow> char \<Rightarrow> bool" where
  "one_of cs c = (c \<in> set cs)"

definition re_Y :: "(char \<Rightarrow> bool) list list" where
  "re_Y = [[is_digit, is_digit, is_digit, is_digit]]"

definition re_m :: "(char \<Rightarrow> bool) list list" where
  "re_m = [[one_of ''1'', one_of ''012''], [one_of ''0'', one_of ''123456789''],
           [one_of ''123456789'']]"

definition re_d :: "(char \<Rightarrow> bool) list list" where
  "re_d = [[one_of ''3'', one_of ''01''], [one_of ''12'', is_digit],
           [one_of ''0'', one_of ''123456789''], [one_of ''123456789''],
           [one_of '' '', one_of ''123456789'']]"

definition re_H :: "(char \<Rightarrow> bool) list list" where
  "re_H = [[one_of ''2'', one_of ''0123''], [one_of ''01'', is_digit], [is_digit]]"

definition re_M :: "(char \<Rightarrow> bool) list list" where
  "re_M = [[one_of ''012345'', is_digit], [is_digit]]"

text \<open>\<open>int(found)\<close> of a matched field (the blank of \<open> [1-9]\<close> is skipped).\<close>

definition field_val :: "string \<Rightarrow> int" where
  "field_val m = digits_val (filter is_digit m)"

definition leap_year :: "int \<Rightarrow> bool" where
  "leap_year y = (y mod 4 = 0 \<and> (y mod 100 \<noteq> 0 \<or> y mod 400 = 0))"

definition days_in_month :: "int \<Rightarrow> int \<Rightarrow> int" where
  "days_in_month y m =
     (if m = 2 then (if leap_year y then 29 else 28)
      else if m \<in> {4, 6, 9, 11} then 30 else 31)"

definition valid_date :: "int \<Rightarrow> int \<Rightarrow> int \<Rightarrow> bool" where
  "valid_date y m d = (1 \<le> y \<and> 1 \<le> m \<and> m \<le> 12 \<and> 1 \<le> d \<and> d \<le> days_in_month y m)"

text \<open>One field, then the rest of the match.\<close>

definition field ::
  "(char \<Rightarrow> bool) list list \<Rightarrow> string \<Rightarrow> (int \<Rightarrow> string \<Rightarrow> py_error + 'a) \<Rightarrow> py_error + 'a" where
  "field alts s k =
     (case first_alt alts s of
        None \<Rightarrow> Inl ValueError
      | Some (m, r) \<Rightarrow> k (field_val m) r)"

definition literal :: "char \<Rightarrow> string \<Rightarrow> (string \<Rightarrow> py_error + 'a) \<Rightarrow> py_error + 'a" where
  "literal c s k = (case s of [] \<Rightarrow> Inl ValueError | x # r \<Rightarrow> if x = c then k r else Inl ValueError)"

definition spaces1 :: "string \<Rightarrow> (string \<Rightarrow> py_error + 'a) \<Rightarrow> py_error + 'a" where
  "spaces1 s k =
     (if takeWhile is_space s = [] then Inl ValueError else k (dropWhile is_space s))"

text \<open>\<open>datetime.strptime(s, '%Y-%m-%d %H:%M')\<close>: year, month, day, hour, minute.\<close>

definition strptime_ymd_hm :: "string \<Rightarrow> py_error + (int \<times> int \<times> int \<times> int \<times> int)" where
  "strptime_ymd_hm s =
     field re_Y s (\<lambda>y s1. literal CHR ''-'' s1 (\<lambda>s2.
     field re_m s2 (\<lambda>m s3. literal CHR ''-'' s3 (\<lambda>s4.
     field re_d s4 (\<lambda>d s5. spaces1 s5 (\<lambda>s6.
     field re_H s6 (\<lambda>h s7. literal CHR '':'' s7 (\<lambda>s8.
     field re_M s8 (\<lambda>mi s9.
       if s9 \<noteq> [] then Inl ValueError
       else if valid_date y m d then Inr (y, m, d, h, mi)
       else Inl ValueError)))))))))"

text \<open>\<open>datetime.strptime(s, '%Y-%m-%d')\<close>.\<close>

definition strptime_ymd :: "string \<Rightarrow> py_error + (int \<times> int \<times> int)" where
  "strptime_ymd s =
     field re_Y s (\<lambda>y s1. literal CHR ''-'' s1 (\<lambda>s2.
     field re_m s2 (\<lambda>m s3. literal CHR ''-'' s3 (\<lambda>s4.
     field re_d s4 (\<lambda>d s5.
       if s5 \<noteq> [] then Inl ValueError
       else if valid_date y m d then Inr (y, m, d)
       else Inl ValueError)))))"

text \<open>\<open>time_obj.strftime('%I %p')\<close>: the hour on the 12-hour clock, two digits, and AM or PM.\<close>

definition two_digits :: "int \<Rightarrow> string" where
  "two_digits n =
     [''0123456789'' ! nat (n div 10 mod 10), ''0123456789'' ! nat (n mod 10)]"

definition strftime_I_p :: "int \<Rightarrow> string" where
  "strftime_I_p h =
     two_digits (if h mod 12 = 0 then 12 else h mod 12) @ '' '' @ (if h < 12 then ''AM'' else ''PM'')"

text \<open>
  \<open>date_obj.strftime('%a, %b %d')\<close>: the day of the week comes from the proleptic Gregorian
  ordinal of the date (\<open>date.weekday()\<close> is \<open>(toordinal() + 6) % 7\<close>, Monday first).
\<close>

definition days_before_year :: "int \<Rightarrow> int" where
  "days_before_year y = (let p = y - 1 in p * 365 + p div 4 - p div 100 + p div 400)"

definition toordinal :: "int \<Rightarrow> int \<Rightarrow> int \<Rightarrow> int" where
  "toordinal y m d = days_before_year y + sum_list (map (days_in_month y) [1..m - 1]) + d"

definition day_names :: "string list" where
  "day_names = [''Mon'', ''Tue'', ''Wed'', ''Thu'', ''Fri'', ''Sat'', ''Sun'']"

definition month_names :: "string list" where
  "month_names = [''Jan'', ''Feb'', ''Mar'', ''Apr'', ''May'', ''Jun'',
                  ''Jul'', ''Aug'', ''Sep'', ''Oct'', ''Nov'', ''Dec'']"

definition strftime_a_b_d :: "int \<Rightarrow> int \<Rightarrow> int \<Rightarrow> string" where
  "strftime_a_b_d y m d =
     day_names ! nat ((toordinal y m d + 6) mod 7) @ '', '' @ month_names ! nat (m - 1) @ '' '' @
     two_digits d"

section \<open>weather_service.py\<close>

text \<open>
  The remote provider answers one request with a transport fault (connection error,
  timeout, any exception inside the \<open>try\<close> of \<open>_make_request\<close>) or with a status and a
  body; the body is \<open>None\<close> when \<open>response.json()\<close> cannot decode it. A \<open>transport\<close> is the
  behaviour of the network for one call: it maps the endpoint and the query parameters to
  the outcome.
\<close>

datatype http_outcome = TransportFault | HttpResponse nat "json option"

type_synonym transport = "string \<Rightarrow> (string \<times> string) list \<Rightarrow> http_outcome"

text \<open>\<open>_make_request\<close>: every failure is the value \<open>None\<close>.\<close>

definition make_request :: "transport \<Rightarrow> string \<Rightarrow> string \<Rightarrow> (string \<times> string) list \<Rightarrow> json" where
  "make_request net api_key endpoint params =
     (case net endpoint (params @ [(''key'', api_key)]) of
        TransportFault \<Rightarrow> JNull
      | HttpResponse status body \<Rightarrow>
          if status = 200 then (case body of None \<Rightarrow> JNull | Some d \<Rightarrow> d) else JNull)"

text \<open>
  \<open>get_current_weather\<close>. \<open>py_str\<close> is Python's \<open>str\<close>, which the f-string of the
  location label applies to the two values it shows.
\<close>

definition current_weather_of :: "(json \<Rightarrow> string) \<Rightarrow> json \<Rightarrow> py_error + json" where
  "current_weather_of py_str data =
     (if \<not> py_truthy data then Inr JNull
      else
        and_then (dict_get data ''current'' (JDict [])) (\<lambda>current.
        and_then (dict_get data ''location'' (JDict [])) (\<lambda>location_data.
        and_then (dict_get location_data ''name'' (JStr [])) (\<lambda>name.
        and_then (dict_get location_data ''country'' (JStr [])) (\<lambda>country.
        and_then (dict_get current ''temp_c'' (JNum 0)) (\<lambda>temp_c.
        and_then (dict_get current ''feelslike_c'' (JNum 0)) (\<lambda>feelslike_c.
        and_then (dict_get current ''humidity'' (JNum 0)) (\<lambda>humidity.
        and_then (dict_get current ''wind_kph'' (JNum 0)) (\<lambda>wind_kph.
        and_then (dict_get current ''wind_degree'' (JNum 0)) (\<lambda>wind_degree.
        and_then (dict_get current ''condition'' (JDict [])) (\<lambda>condition.
        and_then (dict_get condition ''text'' (JStr [])) (\<lambda>text.
        and_then (dict_get current ''pressure_mb'' (JNum 0)) (\<lambda>pressure_mb.
        and_then (dict_get current ''vis_km'' (JNum 0)) (\<lambda>vis_km.
        and_then (dict_get current ''uv'' (JNum 0)) (\<lambda>uv.
        and_then (dict_get current ''last_updated'' (JStr [])) (\<lambda>last_updated.
          Inr (JDict
            [(''location'', JStr (py_str name @ '', '' @ py_str country)),
             (''temperature'', temp_c),
             (''feels_like'', feelslike_c),
             (''humidity'', humidity),
             (''wind_speed'', wind_kph),
             (''wind_direction'', wind_degree),
             (''condition'', text),
             (''pressure'', pressure_mb),
             (''visibility'', vis_km),
             (''uv_index'', uv),
             (''last_updated'', last_updated),
             (''sunrise'', JStr ''05:52 AM''),
             (''sunset'', JStr ''08:11 PM'')])))))))))))))))))"

definition get_current_weather ::
  "(json \<Rightarrow> string) \<Rightarrow> transport \<Rightarrow> string \<Rightarrow> string \<Rightarrow> py_error + json" where
  "get_current_weather py_str net api_key location =
     current_weather_of py_str
       (make_request net api_key ''current.json'' [(''q'', location), (''aqi'', ''yes'')])"

text \<open>
  \<open>get_12hour_forecast\<close>. \<open>strptime\<close> of a value that is not a string raises
  \<open>TypeError\<close>. No \<open>try\<close> surrounds the loop body.
\<close>

definition strptime_time :: "json \<Rightarrow> py_error + (int \<times> int \<times> int \<times> int \<times> int)" where
  "strptime_time t = (case t of JStr s \<Rightarrow> strptime_ymd_hm s | _ \<Rightarrow> Inl TypeError)"

definition hour_entry :: "json \<Rightarrow> py_error + json" where
  "hour_entry hour_data =
     and_then (dict_get hour_data ''time'' (JStr [])) (\<lambda>t.
     and_then (strptime_time t) (\<lambda>time_obj.
     and_then (dict_get hour_data ''temp_c'' (JNum 0)) (\<lambda>temp_c.
     and_then (dict_get hour_data ''condition'' (JDict [])) (\<lambda>condition.
     and_then (dict_get condition ''text'' (JStr [])) (\<lambda>text.
     and_then (dict_get hour_data ''chance_of_rain'' (JNum 0)) (\<lambda>chance_of_rain.
     and_then (dict_get hour_data ''wind_kph'' (JNum 0)) (\<lambda>wind_kph.
       Inr (JDict
         [(''time'', JStr (strftime_I_p (fst (snd (snd (snd time_obj)))))),
          (''temperature'', temp_c),
          (''condition'', text),
          (''precipitation'', chance_of_rain),
          (''wind_speed'', wind_kph)]))))))))"

text \<open>
  The loop \<open>for i in range(12)\<close>, over the list of the values of \<open>i\<close> still to come;
  \<open>n\<close> is \<open>len(hours)\<close>.
\<close>

fun next_hours :: "json \<Rightarrow> nat \<Rightarrow> nat \<Rightarrow> nat list \<Rightarrow> py_error + json list" where
  "next_hours hours n current_hour [] = Inr []"
| "next_hours hours n current_hour (i # is) =
     (let hour_index = (current_hour + i) mod 24
      in if hour_index < n then
           and_then (py_index hours (int hour_index)) (\<lambda>hour_data.
           and_then (hour_entry hour_data) (\<lambda>entry.
           and_then (next_hours hours n current_hour is) (\<lambda>rest.
             Inr (entry # rest))))
         else next_hours hours n current_hour is)"

definition forecast_12hour_of :: "nat \<Rightarrow> json \<Rightarrow> py_error + json list" where
  "forecast_12hour_of current_hour data =
     (if \<not> py_truthy data then Inr []
      else
        and_then (dict_get data ''forecast'' (JDict [])) (\<lambda>fc.
        and_then (dict_get fc ''forecastday'' (JList [])) (\<lambda>forecast_data.
          if py_truthy forecast_data then
            and_then (py_index forecast_data 0) (\<lambda>today.
            and_then (dict_get today ''hour'' (JList [])) (\<lambda>hours.
            and_then (py_len hours) (\<lambda>n.
              next_hours hours n current_hour [0..<12])))
          else Inr [])))"

definition get_12hour_forecast ::
  "nat \<Rightarrow> transport \<Rightarrow> string \<Rightarrow> string \<Rightarrow> py_error + json list" where
  "get_12hour_forecast current_hour net api_key location =
     forecast_12hour_of current_hour
       (make_request net api_key ''forecast.json''
          [(''q'', location), (''hours'', ''24''), (''aqi'', ''no'')])"

text \<open>
  \<open>get_7day_forecast\<close>. The date label is formatted inside \<open>try\<close> with a bare \<open>except\<close>
  that falls back to the raw value.
\<close>

definition format_date_label :: "json \<Rightarrow> json" where
  "format_date_label date_str =
     (case date_str of
        JStr s \<Rightarrow>
          (case strptime_ymd s of
             Inr (y, m, d) \<Rightarrow> JStr (strftime_a_b_d y m d)
           | Inl e \<Rightarrow> date_str)
      | _ \<Rightarrow> date_str)"

definition day_entry :: "json \<Rightarrow> py_error + json" where
  "day_entry day_data =
     and_then (dict_get day_data ''day'' (JDict [])) (\<lambda>day.
     and_then (dict_get day_data ''date'' (JStr [])) (\<lambda>date_str.
     and_then (dict_get day ''mintemp_c'' (JNum 0)) (\<lambda>mintemp_c.
     and_then (dict_get day ''maxtemp_c'' (JNum 0)) (\<lambda>maxtemp_c.
     and_then (dict_get day ''condition'' (JDict [])) (\<lambda>condition.
     and_then (dict_get condition ''text'' (JStr [])) (\<lambda>text.
     and_then (dict_get day ''daily_chance_of_rain'' (JNum 0)) (\<lambda>daily_chance_of_rain.
     and_then (dict_get day ''avghumidity'' (JNum 0)) (\<lambda>avghumidity.
       Inr (JDict
         [(''date'', format_date_label date_str),
          (''temp_min'', mintemp_c),
          (''temp_max'', maxtemp_c),
          (''condition'', text),
          (''precipitation_chance'', daily_chance_of_rain),
          (''humidity'', avghumidity)])))))))))"

text \<open>The loop \<open>for day_data in forecast_data\<close>: the first raise ends it.\<close>

fun each_day :: "json list \<Rightarrow> py_error + json list" where
  "each_day [] = Inr []"
| "each_day (day_data # later) =
     and_then (day_entry day_data) (\<lambda>entry.
     and_then (each_day later) (\<lambda>rest. Inr (entry # rest)))"

definition forecast_7day_of :: "json \<Rightarrow> py_error + json list" where
  "forecast_7day_of data =
     (if \<not> py_truthy data then Inr []
      else
        and_then (dict_get data ''forecast'' (JDict [])) (\<lambda>fc.
        and_then (dict_get fc ''forecastday'' (JList [])) (\<lambda>forecast_data.
        and_then (py_iter forecast_data) each_day)))"

definition get_7day_forecast :: "transport \<Rightarrow> string \<Rightarrow> string \<Rightarrow> py_error + json list" where
  "get_7day_forecast net api_key location =
     forecast_7day_of
       (make_request net api_key ''forecast.json''
          [(''q'', location), (''days'', ''7''), (''aqi'', ''no'')])"

text \<open>\<open>get_air_quality\<close>: the status is chosen from \<open>aqi_value\<close>, the \<open>aqi\<close> is \<open>int(aqi_value)\<close>.\<close>

definition aqi_status :: "rat \<Rightarrow> string" where
  "aqi_status aqi_value =
     (if aqi_value \<le> 50 then ''Good''
      else if aqi_value \<le> 100 then ''Moderate''
      else if aqi_value \<le> 150 then ''Unhealthy for Sensitive Groups''
      else ''Unhealthy'')"

definition air_quality_of :: "json \<Rightarrow> py_error + json" where
  "air_quality_of data =
     (if \<not> py_truthy data then Inr JNull
      else
        and_then (dict_get data ''current'' (JDict [])) (\<lambda>current.
        and_then (dict_get current ''air_quality'' (JDict [])) (\<lambda>air_quality.
        and_then (dict_get air_quality ''co'' (JNum 0)) (\<lambda>jco.
        and_then (dict_get air_quality ''no2'' (JNum 0)) (\<lambda>jno2.
        and_then (dict_get air_quality ''o3'' (JNum 0)) (\<lambda>jo3.
        and_then (dict_get air_quality ''pm2_5'' (JNum 0)) (\<lambda>jpm25.
        and_then (dict_get air_quality ''pm10'' (JNum 0)) (\<lambda>jpm10.
        and_then (as_number jpm25) (\<lambda>pm25.
        and_then (as_number jpm10) (\<lambda>pm10.
        and_then (as_number jno2) (\<lambda>no2.
        and_then (as_number jo3) (\<lambda>o3.
        and_then (as_number jco) (\<lambda>co.
          let aqi_value = Max {pm25 * 2, pm10, no2 / 2, o3 / 2, co / 10}
          in Inr (JDict
            [(''aqi'', JNum (of_int (py_int aqi_value))),
             (''status'', JStr (aqi_status aqi_value)),
             (''co'', JNum (py_round2 co)),
             (''no2'', JNum (py_round2 no2)),
             (''o3'', JNum (py_round2 o3)),
             (''pm25'', JNum (py_round2 pm25)),
             (''pm10'', JNum (py_round2 pm10))]))))))))))))))"

definition get_air_quality :: "transport \<Rightarrow> string \<Rightarrow> string \<Rightarrow> py_error + json" where
  "get_air_quality net api_key location =
     air_quality_of
       (make_request net api_key ''current.json'' [(''q'', location), (''aqi'', ''yes'')])"

text \<open>\<open>get_weather_alerts\<close>.\<close>

definition alert_entry :: "json \<Rightarrow> py_error + json" where
  "alert_entry alert =
     and_then (dict_get alert ''headline'' (JStr [])) (\<lambda>headline.
     and_then (dict_get alert ''desc'' (JStr [])) (\<lambda>desc.
     and_then (dict_get alert ''severity'' (JStr [])) (\<lambda>severity.
     and_then (dict_get alert ''effective'' (JStr [])) (\<lambda>effective.
     and_then (dict_get alert ''expires'' (JStr [])) (\<lambda>expires.
     and_then (dict_get alert ''areas'' (JStr [])) (\<lambda>areas.
       Inr (JDict
         [(''title'', headline),
          (''description'', desc),
          (''severity'', severity),
          (''start'', effective),
          (''end'', expires),
          (''areas'', areas)])))))))"

fun each_alert :: "json list \<Rightarrow> py_error + json list" where
  "each_alert [] = Inr []"
| "each_alert (alert # later) =
     and_then (alert_entry alert) (\<lambda>entry.
     and_then (each_alert later) (\<lambda>rest. Inr (entry # rest)))"

definition weather_alerts_of :: "json \<Rightarrow> py_error + json list" where
  "weather_alerts_of data =
     (if \<not> py_truthy data then Inr []
      else
        and_then (dict_get data ''alerts'' (JDict [])) (\<lambda>al.
        and_then (dict_get al ''alert'' (JList [])) (\<lambda>alerts_data.
        and_then (py_iter alerts_data) each_alert)))"

definition get_weather_alerts :: "transport \<Rightarrow> string \<Rightarrow> string \<Rightarrow> py_error + json list" where
  "get_weather_alerts net api_key location =
     weather_alerts_of
       (make_request net api_key ''current.json'' [(''q'', location), (''alerts'', ''yes'')])"

section \<open>utils.py\<close>

subsection \<open>Formatting helpers\<close>

text \<open>
  \<open>format_temperature\<close> and \<open>format_wind_speed\<close> with their default unit return
  \<open>f"{x:.1f}..."\<close>: a number (or \<open>bool\<close>) is formatted, a string raises \<open>ValueError\<close>,
  \<open>None\<close>, a list and a dictionary raise \<open>TypeError\<close>. \<open>get_weather_emoji\<close> begins with
  \<open>condition.lower()\<close>, a method of strings only. The text these helpers produce is not
  modelled, their raising is.
\<close>

fun format_1f :: "json \<Rightarrow> py_error + unit" where
  "format_1f (JNum q) = Inr ()"
| "format_1f (JBool b) = Inr ()"
| "format_1f (JStr s) = Inl ValueError"
| "format_1f _ = Inl TypeError"

definition format_temperature :: "json \<Rightarrow> py_error + unit" where
  "format_temperature temp = format_1f temp"

definition format_wind_speed :: "json \<Rightarrow> py_error + unit" where
  "format_wind_speed speed = format_1f speed"

fun get_weather_emoji :: "json \<Rightarrow> py_error + unit" where
  "get_weather_emoji (JStr condition) = Inr ()"
| "get_weather_emoji _ = Inl AttributeError"

subsection \<open>Wind direction\<close>

definition directions :: "string list" where
  "directions =
     [''N'', ''NNE'', ''NE'', ''ENE'', ''E'', ''ESE'', ''SE'', ''SSE'',
      ''S'', ''SSW'', ''SW'', ''WSW'', ''W'', ''WNW'', ''NW'', ''NNW'']"

text \<open>
  \<open>degrees = degrees % 360; index = int((degrees + 11.25) / 22.5) % 16\<close>, with Python's
  floored \<open>%\<close> (which is \<open>mod\<close> on \<open>int\<close>).
\<close>

definition wind_index :: "int \<Rightarrow> int" where
  "wind_index degrees =
     (let d = degrees mod 360
      in py_int ((of_int d + 45 / 4) / (45 / 2)) mod 16)"

definition get_wind_direction :: "int \<Rightarrow> py_error + string" where
  "get_wind_direction degrees = list_get directions (wind_index degrees)"

subsection \<open>Location input\<close>

text \<open>
  \<open>validate_coordinates\<close> compares two floats; \<open>float\<close> values are the rationals they
  denote.
\<close>

definition validate_coordinates :: "rat \<Rightarrow> rat \<Rightarrow> bool" where
  "validate_coordinates lat lon = (- 90 \<le> lat \<and> lat \<le> 90 \<and> - 180 \<le> lon \<and> lon \<le> 180)"

text \<open>
  \<open>re.match(r'^(-?\d+\.?\d*),\s*(-?\d+\.?\d*)$', location_input)\<close>. Each quantified
  item of the pattern is followed by an item that matches none of its characters, so the
  greedy match is the only one: \<open>match_number\<close> is \<open>-?\d+\.?\d*\<close> at the start of a
  string and returns the matched text and the rest; \<open>coord_match\<close> returns the two groups.
  \<open>$\<close> matches at the end and before a final newline.
\<close>

definition optional_char :: "char \<Rightarrow> string \<Rightarrow> string \<times> string" where
  "optional_char c s = (case s of [] \<Rightarrow> ([], s) | x # r \<Rightarrow> if x = c then ([x], r) else ([], s))"

definition match_number :: "string \<Rightarrow> (string \<times> string) option" where
  "match_number s =
     (let (sign, s1) = optional_char CHR ''-'' s;
          ds = takeWhile is_digit s1;
          (dot, s2) = optional_char CHR ''.'' (dropWhile is_digit s1);
          fs = takeWhile is_digit s2
      in if ds = [] then None else Some (sign @ ds @ dot @ fs, dropWhile is_digit s2))"

definition coord_match :: "string \<Rightarrow> (string \<times> string) option" where
  "coord_match s =
     (case match_number s of
        None \<Rightarrow> None
      | Some (g1, r1) \<Rightarrow>
          (case r1 of
             [] \<Rightarrow> None
           | c # r2 \<Rightarrow>
               if c \<noteq> CHR '','' then None
               else
                 (case match_number (dropWhile is_space r2) of
                    None \<Rightarrow> None
                  | Some (g2, r3) \<Rightarrow>
                      if r3 = [] \<or> r3 = [CHR 0x0A] then Some (g1, g2) else None)))"

text \<open>
  The decimal value of a text matched by \<open>-?\d+\.?\d*\<close>. \<open>float(g)\<close> is the double
  nearest to it: \<open>parse_location_input\<close> takes that rounding as the parameter \<open>to_float\<close>.
\<close>

definition float_of_token :: "string \<Rightarrow> rat" where
  "float_of_token t =
     (let (sign, body) = optional_char CHR ''-'' t;
          ds = takeWhile is_digit body;
          fs = drop 1 (dropWhile is_digit body)
      in (if sign = [] then 1 else - 1) *
         (of_int (digits_val ds) + of_int (digits_val fs) / 10 ^ length fs))"

text \<open>\<open>s.split(',')\<close>.\<close>

fun split_on :: "char \<Rightarrow> string \<Rightarrow> string list" where
  "split_on c [] = [[]]"
| "split_on c (x # xs) =
     (if x = c then [] # split_on c xs
      else (case split_on c xs of [] \<Rightarrow> [[x]] | p # ps \<Rightarrow> (x # p) # ps))"

text \<open>\<open>parse_location_input\<close>; the dictionaries it returns are \<open>JDict\<close> values.\<close>

definition parse_location_input :: "(rat \<Rightarrow> rat) \<Rightarrow> string \<Rightarrow> json" where
  "parse_location_input to_float raw =
     (let location_input = strip raw;
          coords =
            (case coord_match location_input of
               None \<Rightarrow> None
             | Some (g1, g2) \<Rightarrow>
                 (let lat = to_float (float_of_token g1); lon = to_float (float_of_token g2)
                  in if validate_coordinates lat lon
                     then Some (JDict [(''type'', JStr ''coordinates''),
                                       (''latitude'', JNum lat),
                                       (''longitude'', JNum lon),
                                       (''query'', JStr location_input)])
                     else None))
      in case coords of
           Some r \<Rightarrow> r
         | None \<Rightarrow>
             if CHR '','' \<in> set location_input then
               (let parts = map strip (split_on CHR '','' location_input)
                in JDict [(''type'', JStr ''location''),
                          (''city'', JStr (hd parts)),
                          (''country'', JStr (if 1 < length parts then last parts else [])),
                          (''region'', JStr (if 2 < length parts then parts ! 1 else [])),
                          (''query'', JStr location_input)])
             else JDict [(''type'', JStr ''location''),
                         (''city'', JStr location_input),
                         (''country'', JStr []),
                         (''region'', JStr []),
                         (''query'', JStr location_input)])"

section \<open>database.py\<close>

text \<open>
  The SQLite store, as the thread-local connection sees it: the rows of \<open>weather_requests\<close>
  and of \<open>weather_cache\<close> in insertion order, and for each table the last key its
  \<open>AUTOINCREMENT\<close> column gave out. The table \<open>weather_cache\<close> is created with
  \<open>location_key TEXT UNIQUE\<close>; no constraint mentions \<open>data_type\<close>. A timestamp is a
  number of microseconds; \<open>now\<close> is the clock. The cached payload is stored as the JSON
  value that \<open>json.dumps\<close> writes and \<open>json.loads\<close> reads back.

  Every method body is one \<open>try\<close> block with \<open>except Exception\<close>. \<open>fault step\<close> tells
  whether the step raises when the method reaches it: getting the connection,
  \<open>json.dumps\<close> of a payload it cannot encode, executing the statement, committing,
  fetching the row, \<open>json.loads\<close> of a stored text that is not JSON. A statement that ran
  before a failing commit stays in the open transaction of the connection. The table
  \<open>users\<close> is kept as its columns \<open>user_id\<close> and \<open>language_code\<close>.
\<close>

datatype db_error = DatabaseError | OverflowError | JsonError

record cache_row =
  row_id :: nat
  row_location_key :: string
  row_data_type :: string
  row_weather_data :: json
  row_expires_at :: int
  row_created_at :: int

record request_row =
  log_id :: nat
  log_user_id :: int
  log_location :: string
  log_request_type :: string
  log_response_time :: rat
  log_success :: bool
  log_error_message :: "string option"
  log_created_at :: int

record database =
  weather_requests :: "request_row list"
  weather_requests_seq :: nat
  weather_cache :: "cache_row list"
  weather_cache_seq :: nat
  users :: "(int \<times> string option) list"

datatype db_step = Connect | Dumps | Execute | Commit | Fetch | Loads

text \<open>
  \<open>timedelta(minutes=m)\<close> and \<open>datetime + timedelta\<close>. A timestamp counts the
  microseconds since \<open>datetime.min\<close>, the first instant of the year 1; \<open>datetime.max\<close> is
  the last microsecond of the year 9999, the day of ordinal 3652059. A \<open>timedelta\<close> of
  more than 999999999 days, and a sum outside the two bounds, raise \<open>OverflowError\<close>.
\<close>

definition timedelta_minutes :: "int \<Rightarrow> db_error + int" where
  "timedelta_minutes m =
     (let microseconds = m * 60000000; days = microseconds div 86400000000
      in if - 999999999 \<le> days \<and> days \<le> 999999999 then Inr microseconds
         else Inl OverflowError)"

definition datetime_max :: int where
  "datetime_max = 3652059 * 86400000000 - 1"

definition datetime_add :: "int \<Rightarrow> int \<Rightarrow> db_error + int" where
  "datetime_add t delta =
     (if 0 \<le> t + delta \<and> t + delta \<le> datetime_max then Inr (t + delta)
      else Inl OverflowError)"

text \<open>
  \<open>INSERT OR REPLACE INTO weather_cache (location_key, data_type, weather_data, expires_at)\<close>:
  the rows that conflict with the new one on the \<open>UNIQUE\<close> column \<open>location_key\<close> are
  deleted, then the new row is inserted under a fresh \<open>id\<close>.
\<close>

definition insert_or_replace_cache ::
  "database \<Rightarrow> string \<Rightarrow> string \<Rightarrow> json \<Rightarrow> int \<Rightarrow> int \<Rightarrow> database" where
  "insert_or_replace_cache db location_key data_type data_json expires_at now =
     db\<lparr>weather_cache :=
          filter (\<lambda>r. row_location_key r \<noteq> location_key) (weather_cache db) @
          [\<lparr>row_id = weather_cache_seq db + 1,
            row_location_key = location_key,
            row_data_type = data_type,
            row_weather_data = data_json,
            row_expires_at = expires_at,
            row_created_at = now\<rparr>],
        weather_cache_seq := weather_cache_seq db + 1\<rparr>"

text \<open>
  \<open>cache_weather_data\<close>: the \<open>try\<close> block, then the method with its handler, which
  returns \<open>False\<close>. The result is paired with the store after the call; \<open>Inl\<close> would be
  an exception leaving the method.
\<close>

definition cache_weather_data_try ::
  "(db_step \<Rightarrow> bool) \<Rightarrow> int \<Rightarrow> database \<Rightarrow> string \<Rightarrow> string \<Rightarrow> json \<Rightarrow> int \<Rightarrow>
   (db_error + bool) \<times> database" where
  "cache_weather_data_try fault now db location_key data_type weather_data ttl_minutes =
     (if fault Connect then (Inl DatabaseError, db)
      else
        (case timedelta_minutes ttl_minutes of
           Inl e \<Rightarrow> (Inl e, db)
         | Inr delta \<Rightarrow>
             (case datetime_add now delta of
                Inl e \<Rightarrow> (Inl e, db)
              | Inr expires_at \<Rightarrow>
                  if fault Dumps then (Inl JsonError, db)
                  else if fault Execute then (Inl DatabaseError, db)
                  else
                    let db' = insert_or_replace_cache db location_key data_type weather_data
                                expires_at now
                    in if fault Commit then (Inl DatabaseError, db') else (Inr True, db'))))"

definition cache_weather_data ::
  "(db_step \<Rightarrow> bool) \<Rightarrow> int \<Rightarrow> database \<Rightarrow> string \<Rightarrow> string \<Rightarrow> json \<Rightarrow> int \<Rightarrow>
   (db_error + bool) \<times> database" where
  "cache_weather_data fault now db location_key data_type weather_data ttl_minutes =
     (case cache_weather_data_try fault now db location_key data_type weather_data ttl_minutes of
        (Inl e, db') \<Rightarrow> (Inr False, db')
      | (Inr r, db') \<Rightarrow> (Inr r, db'))"

text \<open>
  \<open>get_cached_weather_data\<close>: \<open>SELECT weather_data ... WHERE location_key = ? AND
  data_type = ? AND expires_at > ?\<close> with the current time, then \<open>fetchone\<close>. \<open>None\<close> is
  \<open>JNull\<close>.
\<close>

definition get_cached_weather_data_try ::
  "(db_step \<Rightarrow> bool) \<Rightarrow> int \<Rightarrow> database \<Rightarrow> string \<Rightarrow> string \<Rightarrow> db_error + json" where
  "get_cached_weather_data_try fault now db location_key data_type =
     (if fault Connect \<or> fault Execute then Inl DatabaseError
      else
        let rows = filter (\<lambda>r. row_location_key r = location_key \<and> row_data_type r = data_type \<and>
                               now < row_expires_at r) (weather_cache db)
        in if fault Fetch then Inl DatabaseError
           else (case rows of
                   [] \<Rightarrow> Inr JNull
                 | row # others \<Rightarrow>
                     if fault Loads then Inl JsonError else Inr (row_weather_data row)))"

definition get_cached_weather_data ::
  "(db_step \<Rightarrow> bool) \<Rightarrow> int \<Rightarrow> database \<Rightarrow> string \<Rightarrow> string \<Rightarrow> db_error + json" where
  "get_cached_weather_data fault now db location_key data_type =
     (case get_cached_weather_data_try fault now db location_key data_type of
        Inl e \<Rightarrow> Inr JNull
      | Inr r \<Rightarrow> Inr r)"

text \<open>\<open>log_weather_request\<close>: one \<open>INSERT INTO weather_requests\<close>.\<close>

definition log_weather_request_try ::
  "(db_step \<Rightarrow> bool) \<Rightarrow> int \<Rightarrow> database \<Rightarrow> int \<Rightarrow> string \<Rightarrow> string \<Rightarrow> rat \<Rightarrow> bool \<Rightarrow>
   string option \<Rightarrow> (db_error + bool) \<times> database" where
  "log_weather_request_try fault now db user_id location request_type response_time success
     error_message =
     (if fault Connect \<or> fault Execute then (Inl DatabaseError, db)
      else
        let db' = db\<lparr>weather_requests :=
                       weather_requests db @
                       [\<lparr>log_id = weather_requests_seq db + 1,
                         log_user_id = user_id,
                         log_location = location,
                         log_request_type = request_type,
                         log_response_time = response_time,
                         log_success = success,
                         log_error_message = error_message,
                         log_created_at = now\<rparr>],
                     weather_requests_seq := weather_requests_seq db + 1\<rparr>
        in if fault Commit then (Inl DatabaseError, db') else (Inr True, db'))"

definition log_weather_request ::
  "(db_step \<Rightarrow> bool) \<Rightarrow> int \<Rightarrow> database \<Rightarrow> int \<Rightarrow> string \<Rightarrow> string \<Rightarrow> rat \<Rightarrow> bool \<Rightarrow>
   string option \<Rightarrow> (db_error + bool) \<times> database" where
  "log_weather_request fault now db user_id location request_type response_time success
     error_message =
     (case log_weather_request_try fault now db user_id location request_type response_time
             success error_message of
        (Inl e, db') \<Rightarrow> (Inr False, db')
      | (Inr r, db') \<Rightarrow> (Inr r, db'))"

text \<open>
  \<open>get_user_language\<close>: \<open>SELECT language_code FROM users WHERE user_id = ?\<close> and
  \<open>fetchone\<close>; the handler returns \<open>None\<close>. It writes nothing.
\<close>

definition get_user_language_try ::
  "(db_step \<Rightarrow> bool) \<Rightarrow> database \<Rightarrow> int \<Rightarrow> db_error + string option" where
  "get_user_language_try fault db user_id =
     (if fault Connect \<or> fault Execute then Inl DatabaseError
      else
        let rows = filter (\<lambda>u. fst u = user_id) (users db)
        in if fault Fetch then Inl DatabaseError
           else (case rows of [] \<Rightarrow> Inr None | row # others \<Rightarrow> Inr (snd row)))"

definition get_user_language ::
  "(db_step \<Rightarrow> bool) \<Rightarrow> database \<Rightarrow> int \<Rightarrow> db_error + string option" where
  "get_user_language fault db user_id =
     (case get_user_language_try fault db user_id of
        Inl e \<Rightarrow> Inr None
      | Inr r \<Rightarrow> Inr r)"

section \<open>main.py\<close>

text \<open>
  The chat transport and the translated templates are outside the core: a message is
  recorded by what it shows (which template, in which language, over which data), and
  sending it appends it to the chat. \<open>send_weather_info\<close> makes its four fetches one after
  the other; \<open>net k\<close> is the behaviour of the network at the \<open>k\<close>-th fetch of a handler.
  An exception of a fetch or of a formatter is caught by the \<open>except Exception\<close> of the
  handler, which shows the error text.
\<close>

datatype message_text =
    LoadingText string
  | EnterLocationText string
  | CurrentWeatherText json string
  | Forecast12hText "json list" string
  | Forecast7dText "json list" string
  | AirQualityText json string
  | AlertsText "json list" string
  | NoActiveAlertsText string
  | InvalidRequestText string
  | NoDataText string
  | ErrorText string py_error

datatype chat_action = ReplyText message_text | EditText message_text

record weather_bot =
  bot_db :: database
  bot_chat :: "chat_action list"

text \<open>
  \<open>format_current_weather\<close>: the emoji of the condition, then the two temperatures and
  the wind speed are formatted before the template is filled.
\<close>

definition format_current_weather :: "json \<Rightarrow> string \<Rightarrow> py_error + message_text" where
  "format_current_weather weather_data user_lang =
     (if \<not> py_truthy weather_data then Inr (NoDataText user_lang)
      else
        and_then (dict_get weather_data ''condition'' (JStr [])) (\<lambda>condition.
        and_then (get_weather_emoji condition) (\<lambda>weather_emoji.
        and_then (dict_get weather_data ''temperature'' (JNum 0)) (\<lambda>temperature.
        and_then (format_temperature temperature) (\<lambda>temp.
        and_then (dict_get weather_data ''feels_like'' (JNum 0)) (\<lambda>feels.
        and_then (format_temperature feels) (\<lambda>feels_like.
        and_then (dict_get weather_data ''wind_speed'' (JNum 0)) (\<lambda>speed.
        and_then (format_wind_speed speed) (\<lambda>wind_speed.
          Inr (CurrentWeatherText weather_data user_lang))))))))))"

definition send_weather_info ::
  "(json \<Rightarrow> string) \<Rightarrow> (nat \<Rightarrow> transport) \<Rightarrow> nat \<Rightarrow> string \<Rightarrow> weather_bot \<Rightarrow> string \<Rightarrow> string \<Rightarrow>
   weather_bot" where
  "send_weather_info py_str net current_hour api_key self location user_lang =
     (let bot1 = self\<lparr>bot_chat := bot_chat self @ [ReplyText (LoadingText user_lang)]\<rparr>;
          attempt =
            and_then (get_current_weather py_str (net 0) api_key location) (\<lambda>current_weather.
            and_then (get_12hour_forecast current_hour (net 1) api_key location) (\<lambda>forecast_12h.
            and_then (get_7day_forecast (net 2) api_key location) (\<lambda>forecast_7d.
            and_then (get_air_quality (net 3) api_key location) (\<lambda>air_quality.
              format_current_weather current_weather user_lang))))
      in case attempt of
           Inr weather_text \<Rightarrow> bot1\<lparr>bot_chat := bot_chat bot1 @ [EditText weather_text]\<rparr>
         | Inl e \<Rightarrow> bot1\<lparr>bot_chat := bot_chat bot1 @ [ReplyText (ErrorText user_lang e)]\<rparr>)"

text \<open>
  The formatters of the forecasts show the first 12 and the first 7 entries; for each they
  format the temperatures and choose the emoji of the condition.
\<close>

definition hour_line :: "json \<Rightarrow> py_error + unit" where
  "hour_line hour_data =
     and_then (dict_get hour_data ''time'' (JStr [])) (\<lambda>time.
     and_then (dict_get hour_data ''temperature'' (JNum 0)) (\<lambda>temperature.
     and_then (format_temperature temperature) (\<lambda>temp.
     and_then (dict_get hour_data ''condition'' (JStr [])) (\<lambda>condition.
       get_weather_emoji condition))))"

definition day_line :: "json \<Rightarrow> py_error + unit" where
  "day_line day_data =
     and_then (dict_get day_data ''date'' (JStr [])) (\<lambda>date.
     and_then (dict_get day_data ''temp_min'' (JNum 0)) (\<lambda>tmin.
     and_then (format_temperature tmin) (\<lambda>temp_min.
     and_then (dict_get day_data ''temp_max'' (JNum 0)) (\<lambda>tmax.
     and_then (format_temperature tmax) (\<lambda>temp_max.
     and_then (dict_get day_data ''condition'' (JStr [])) (\<lambda>condition.
       get_weather_emoji condition))))))"

fun each_line :: "(json \<Rightarrow> py_error + unit) \<Rightarrow> json list \<Rightarrow> py_error + unit" where
  "each_line line [] = Inr ()"
| "each_line line (x # xs) = and_then (line x) (\<lambda>u. each_line line xs)"

definition format_12hour_forecast :: "json list \<Rightarrow> string \<Rightarrow> py_error + message_text" where
  "format_12hour_forecast forecast_data user_lang =
     (if forecast_data = [] then Inr (NoDataText user_lang)
      else
        and_then (each_line hour_line (take 12 forecast_data)) (\<lambda>u.
          Inr (Forecast12hText (take 12 forecast_data) user_lang)))"

definition format_7day_forecast :: "json list \<Rightarrow> string \<Rightarrow> py_error + message_text" where
  "format_7day_forecast forecast_data user_lang =
     (if forecast_data = [] then Inr (NoDataText user_lang)
      else
        and_then (each_line day_line (take 7 forecast_data)) (\<lambda>u.
          Inr (Forecast7dText (take 7 forecast_data) user_lang)))"

text \<open>\<open>format_air_quality\<close> compares \<open>aqi\<close> with the thresholds to choose the marker.\<close>

definition format_air_quality :: "json \<Rightarrow> string \<Rightarrow> py_error + message_text" where
  "format_air_quality air_data user_lang =
     (if \<not> py_truthy air_data then Inr (NoDataText user_lang)
      else
        and_then (dict_get air_data ''aqi'' (JNum 0)) (\<lambda>aqi.
        and_then (dict_get air_data ''status'' (JStr ''Unknown'')) (\<lambda>status.
        and_then (as_number aqi) (\<lambda>a.
          Inr (AirQualityText air_data user_lang)))))"

text \<open>
  The language of a chat: \<open>self.db.get_user_language(chat_id) or 'en'\<close>.
\<close>

definition user_language :: "(db_step \<Rightarrow> bool) \<Rightarrow> database \<Rightarrow> int \<Rightarrow> string" where
  "user_language fault db chat_id =
     (case get_user_language fault db chat_id of
        Inr (Some lang) \<Rightarrow> if lang = [] then ''en'' else lang
      | _ \<Rightarrow> ''en'')"

text \<open>\<open>s.split(sep, maxsplit)\<close> and \<open>' '.join(words)\<close>.\<close>

fun split_max :: "char \<Rightarrow> nat \<Rightarrow> string \<Rightarrow> string list" where
  "split_max c 0 s = [s]"
| "split_max c (Suc n) [] = [[]]"
| "split_max c (Suc n) (x # xs) =
     (if x = c then [] # split_max c n xs
      else (case split_max c (Suc n) xs of [] \<Rightarrow> [[x]] | p # ps \<Rightarrow> (x # p) # ps))"

fun join_space :: "string list \<Rightarrow> string" where
  "join_space [] = []"
| "join_space [w] = w"
| "join_space (w # ws) = w @ '' '' @ join_space ws"

text \<open>
  The handlers of weather requests. Each returns the bot after the request and the
  exception that left the handler, if one did. Showing the result of a callback edits the
  message of the query.
\<close>

definition show_result :: "weather_bot \<Rightarrow> string \<Rightarrow> py_error + message_text \<Rightarrow> weather_bot" where
  "show_result self user_lang attempt =
     (case attempt of
        Inr text \<Rightarrow> self\<lparr>bot_chat := bot_chat self @ [EditText text]\<rparr>
      | Inl e \<Rightarrow> self\<lparr>bot_chat := bot_chat self @ [EditText (ErrorText user_lang e)]\<rparr>)"

definition weather_command ::
  "(db_step \<Rightarrow> bool) \<Rightarrow> (json \<Rightarrow> string) \<Rightarrow> (nat \<Rightarrow> transport) \<Rightarrow> nat \<Rightarrow> string \<Rightarrow> weather_bot \<Rightarrow>
   int \<Rightarrow> string list \<Rightarrow> weather_bot \<times> py_error option" where
  "weather_command fault py_str net current_hour api_key self chat_id args =
     (let user_lang = user_language fault (bot_db self) chat_id
      in if args = [] then
           (self\<lparr>bot_chat := bot_chat self @ [ReplyText (EnterLocationText user_lang)]\<rparr>, None)
         else
           (send_weather_info py_str net current_hour api_key self (join_space args) user_lang,
            None))"

datatype incoming = GpsLocation rat rat | TextMessage string

definition handle_location_message ::
  "(db_step \<Rightarrow> bool) \<Rightarrow> (json \<Rightarrow> string) \<Rightarrow> (nat \<Rightarrow> transport) \<Rightarrow> nat \<Rightarrow> string \<Rightarrow> weather_bot \<Rightarrow>
   int \<Rightarrow> incoming \<Rightarrow> weather_bot \<times> py_error option" where
  "handle_location_message fault py_str net current_hour api_key self chat_id message =
     (let user_lang = user_language fault (bot_db self) chat_id;
          location =
            (case message of
               GpsLocation lat lon \<Rightarrow> py_str (JNum lat) @ '','' @ py_str (JNum lon)
             | TextMessage text \<Rightarrow> text)
      in (send_weather_info py_str net current_hour api_key self location user_lang, None))"

definition send_weather_callback ::
  "(db_step \<Rightarrow> bool) \<Rightarrow> (json \<Rightarrow> string) \<Rightarrow> (nat \<Rightarrow> transport) \<Rightarrow> nat \<Rightarrow> string \<Rightarrow> weather_bot \<Rightarrow>
   int \<Rightarrow> string \<Rightarrow> weather_bot \<times> py_error option" where
  "send_weather_callback fault py_str net current_hour api_key self chat_id data =
     (let user_lang = user_language fault (bot_db self) chat_id;
          parts = split_max CHR ''_'' 1 data;
          location = (if 1 < length parts then parts ! 1 else ''New York'')
      in (send_weather_info py_str net current_hour api_key self location user_lang, None))"

definition forecast_callback ::
  "(db_step \<Rightarrow> bool) \<Rightarrow> (nat \<Rightarrow> transport) \<Rightarrow> nat \<Rightarrow> string \<Rightarrow> weather_bot \<Rightarrow>
   int \<Rightarrow> string \<Rightarrow> weather_bot \<times> py_error option" where
  "forecast_callback fault net current_hour api_key self chat_id data =
     (let user_lang = user_language fault (bot_db self) chat_id;
          callback_parts = split_max CHR ''_'' 2 data
      in case list_get callback_parts 1 of
           Inl e \<Rightarrow> (self, Some e)
         | Inr forecast_type \<Rightarrow>
             (let location =
                    (if 2 < length callback_parts then callback_parts ! 2 else ''New York'');
                  attempt =
                    (if forecast_type = ''12h'' then
                       and_then (get_12hour_forecast current_hour (net 0) api_key location)
                         (\<lambda>forecast_data. format_12hour_forecast forecast_data user_lang)
                     else if forecast_type = ''7d'' then
                       and_then (get_7day_forecast (net 0) api_key location)
                         (\<lambda>forecast_data. format_7day_forecast forecast_data user_lang)
                     else Inr (InvalidRequestText user_lang))
              in (show_result self user_lang attempt, None)))"

definition air_quality_callback ::
  "(db_step \<Rightarrow> bool) \<Rightarrow> (nat \<Rightarrow> transport) \<Rightarrow> string \<Rightarrow> weather_bot \<Rightarrow>
   int \<Rightarrow> string \<Rightarrow> weather_bot \<times> py_error option" where
  "air_quality_callback fault net api_key self chat_id data =
     (let user_lang = user_language fault (bot_db self) chat_id;
          parts = split_max CHR ''_'' 2 data;
          location = (if 2 < length parts then parts ! 2 else ''New York'');
          attempt =
            and_then (get_air_quality (net 0) api_key location)
              (\<lambda>air_data. format_air_quality air_data user_lang)
      in (show_result self user_lang attempt, None))"

definition alerts_callback ::
  "(db_step \<Rightarrow> bool) \<Rightarrow> (nat \<Rightarrow> transport) \<Rightarrow> string \<Rightarrow> weather_bot \<Rightarrow>
   int \<Rightarrow> string \<Rightarrow> weather_bot \<times> py_error option" where
  "alerts_callback fault net api_key self chat_id data =
     (let user_lang = user_language fault (bot_db self) chat_id;
          parts = split_max CHR ''_'' 1 data;
          location = (if 1 < length parts then parts ! 1 else ''New York'');
          attempt =
            and_then (get_weather_alerts (net 0) api_key location)
              (\<lambda>alerts. if alerts \<noteq> [] then Inr (AlertsText alerts user_lang)
                        else Inr (NoActiveAlertsText user_lang))
      in (show_result self user_lang attempt, None))"

text \<open>
  The weather requests that \<open>run\<close> registers a handler for: the \<open>/weather\<close> command, a
  location or text message, and the callbacks \<open>refresh_\<close>, \<open>forecast_\<close>, \<open>air_quality_\<close>
  and \<open>alerts_\<close>; each with the chat it comes from.
\<close>

datatype weather_request =
    WeatherCommand int "string list"
  | LocationMessage int incoming
  | RefreshCallback int string
  | ForecastCallback int string
  | AirQualityCallback int string
  | AlertsCallback int string

fun handle_request ::
  "(db_step \<Rightarrow> bool) \<Rightarrow> (json \<Rightarrow> string) \<Rightarrow> (nat \<Rightarrow> transport) \<Rightarrow> nat \<Rightarrow> string \<Rightarrow> weather_bot \<Rightarrow>
   weather_request \<Rightarrow> weather_bot \<times> py_error option" where
  "handle_request fault py_str net current_hour api_key self (WeatherCommand chat_id args) =
     weather_command fault py_str net current_hour api_key self chat_id args"
| "handle_request fault py_str net current_hour api_key self (LocationMessage chat_id message) =
     handle_location_message fault py_str net current_hour api_key self chat_id message"
| "handle_request fault py_str net current_hour api_key self (RefreshCallback chat_id data) =
     send_weather_callback fault py_str net current_hour api_key self chat_id data"
| "handle_request fault py_str net current_hour api_key self (ForecastCallback chat_id data) =
     forecast_callback fault net current_hour api_key self chat_id data"
| "handle_request fault py_str net current_hour api_key self (AirQualityCallback chat_id data) =
     air_quality_callback fault net api_key self chat_id data"
| "handle_request fault py_str net current_hour api_key self (AlertsCallback chat_id data) =
     alerts_callback fault net api_key self chat_id data"

section \<open>Notions of the specification\<close>

text \<open>
  The hour list and the day list of a decoded forecast response, where it has them:
  \<open>data['forecast']['forecastday'][0]['hour']\<close> and \<open>data['forecast']['forecastday']\<close>.
\<close>

definition provider_hours :: "json \<Rightarrow> json list" where
  "provider_hours data =
     (if \<not> py_truthy data then []
      else case data of
        JDict kvs \<Rightarrow>
          (case map_of kvs ''forecast'' of
             Some (JDict fc) \<Rightarrow>
               (case map_of fc ''forecastday'' of
                  Some (JList (JDict today # later)) \<Rightarrow>
                    (case map_of today ''hour'' of Some (JList hours) \<Rightarrow> hours | _ \<Rightarrow> [])
                | _ \<Rightarrow> [])
           | _ \<Rightarrow> [])
      | _ \<Rightarrow> [])"

definition provider_days :: "json \<Rightarrow> json list" where
  "provider_days data =
     (if \<not> py_truthy data then []
      else case data of
        JDict kvs \<Rightarrow>
          (case map_of kvs ''forecast'' of
             Some (JDict fc) \<Rightarrow>
               (case map_of fc ''forecastday'' of Some (JList days) \<Rightarrow> days | _ \<Rightarrow> [])
           | _ \<Rightarrow> [])
      | _ \<Rightarrow> [])"

text \<open>A response that has the hour list of its first forecast day.\<close>

definition has_hour_list :: "json \<Rightarrow> bool" where
  "has_hour_list data =
     (case data of
        JDict kvs \<Rightarrow>
          (case map_of kvs ''forecast'' of
             Some (JDict fc) \<Rightarrow>
               (case map_of fc ''forecastday'' of
                  Some (JList (JDict today # later)) \<Rightarrow>
                    (case map_of today ''hour'' of Some (JList hours) \<Rightarrow> True | _ \<Rightarrow> False)
                | _ \<Rightarrow> False)
           | _ \<Rightarrow> False)
      | _ \<Rightarrow> False)"

text \<open>
  The indices \<open>(currentHour + i) mod 24\<close> for \<open>i\<close> in \<open>0..11\<close>, in the order of \<open>i\<close>, that
  lie inside an hour list of length \<open>n\<close>.
\<close>

definition window_indices :: "nat \<Rightarrow> nat \<Rightarrow> nat list" where
  "window_indices current_hour n =
     filter (\<lambda>j. j < n) (map (\<lambda>i. (current_hour + i) mod 24) [0..<12])"

text \<open>
  A number as the coordinate pattern accepts it: an optional minus sign, one or more
  digits, and optionally a point with zero or more digits after it. \<open>decimal\<close> is its
  text, \<open>decimal_value\<close> the number it denotes.
\<close>

definition decimal :: "bool \<Rightarrow> string \<Rightarrow> string option \<Rightarrow> string" where
  "decimal neg ds fs =
     (if neg then ''-'' else []) @ ds @ (case fs of None \<Rightarrow> [] | Some f \<Rightarrow> CHR ''.'' # f)"

definition decimal_value :: "bool \<Rightarrow> string \<Rightarrow> string option \<Rightarrow> rat" where
  "decimal_value neg ds fs =
     (if neg then - 1 else 1) *
     (of_int (digits_val ds) +
      (case fs of None \<Rightarrow> 0 | Some f \<Rightarrow> of_int (digits_val f) / 10 ^ length f))"

definition well_formed :: "string \<Rightarrow> string option \<Rightarrow> bool" where
  "well_formed ds fs =
     (ds \<noteq> [] \<and> list_all is_digit ds \<and> (case fs of None \<Rightarrow> True | Some f \<Rightarrow> list_all is_digit f))"

section \<open>Concrete inputs\<close>

text \<open>
  A network that answers every request with status 200 and a given body, and one on which
  every request times out.
\<close>

definition always :: "json \<Rightarrow> transport" where
  "always d endpoint params = HttpResponse 200 (Some d)"

definition timed_out :: transport where
  "timed_out endpoint params = TransportFault"

definition every_call :: "transport \<Rightarrow> nat \<Rightarrow> transport" where
  "every_call t k = t"

text \<open>\<open>str\<close> on strings, the only values the inputs below apply it to.\<close>

definition str_of_text :: "json \<Rightarrow> string" where
  "str_of_text v = (case v of JStr s \<Rightarrow> s | _ \<Rightarrow> [])"

definition paris_current :: json where
  "paris_current =
     JDict [(''location'', JDict [(''name'', JStr ''Paris''), (''country'', JStr ''France'')]),
            (''current'', JDict [(''temp_c'', JNum (37 / 2)), (''humidity'', JNum 60),
                                 (''condition'', JDict [(''text'', JStr ''Sunny'')]),
                                 (''air_quality'', JDict [(''pm10'', JNum (101 / 2)), (''co'', JNum 230)])])]"

definition hourly_response :: "json list \<Rightarrow> json" where
  "hourly_response hours =
     JDict [(''forecast'', JDict [(''forecastday'', JList [JDict [(''hour'', JList hours)]])])]"

definition hour_at :: "int \<Rightarrow> json" where
  "hour_at h = JDict [(''time'', JStr (''2024-01-15 '' @ two_digits h @ '':00'')),
                      (''temp_c'', JNum (of_int h))]"

definition hour_without_time :: json where
  "hour_without_time = JDict [(''temp_c'', JNum 21), (''condition'', JDict [(''text'', JStr ''Clear'')])]"

definition day_at :: "int \<Rightarrow> json" where
  "day_at d = JDict [(''date'', JStr (''2024-01-'' @ two_digits d)),
                     (''day'', JDict [(''mintemp_c'', JNum 1), (''maxtemp_c'', JNum (of_int d))])]"

definition daily_response :: "json list \<Rightarrow> json" where
  "daily_response days = JDict [(''forecast'', JDict [(''forecastday'', JList days)])]"

definition no_fault :: "db_step \<Rightarrow> bool" where
  "no_fault step = False"

definition empty_database :: database where
  "empty_database =
     \<lparr>weather_requests = [], weather_requests_seq = 0, weather_cache = [], weather_cache_seq = 0,
      users = []\<rparr>"

definition new_bot :: weather_bot where
  "new_bot = \<lparr>bot_db = empty_database, bot_chat = []\<rparr>"

text \<open>
  The cache after \<open>cache_weather_data('paris', 'current', ...)\<close> at time 0 followed by
  \<open>cache_weather_data('paris', 'forecast7d', ...)\<close> at time 1, both with the default
  time to live of 10 minutes.
\<close>

definition paris_then_forecast :: database where
  "paris_then_forecast =
     snd (cache_weather_data no_fault 1
            (snd (cache_weather_data no_fault 0 empty_database ''paris'' ''current''
                    (JDict [(''temperature'', JNum 18)]) 10))
            ''paris'' ''forecast7d'' (JList [JDict [(''temp_max'', JNum 21)]]) 10)"

definition every_step_fails :: "db_step \<Rightarrow> bool" where
  "every_step_fails step = True"

definition eight_days :: json where
  "eight_days = daily_response (map day_at [1..8])"

definition whole_day :: json where
  "whole_day = hourly_response (map hour_at [0..23])"

definition day_without_times :: json where
  "day_without_times = hourly_response (replicate 24 hour_without_time)"

text \<open>The entry \<open>get_12hour_forecast\<close> builds from \<open>hour_at h\<close>.\<close>

definition normal_hour :: "int \<Rightarrow> json" where
  "normal_hour h =
     JDict [(''time'', JStr (strftime_I_p h)), (''temperature'', JNum (of_int h)),
            (''condition'', JStr []), (''precipitation'', JNum 0), (''wind_speed'', JNum 0)]"

text \<open>A response whose hour list stops after the first five hours of the day.\<close>

definition early_hours :: json where
  "early_hours = hourly_response [hour_at 0, hour_at 1, hour_at 2, hour_at 3, hour_at 4]"

text \<open>A response of \<open>current.json\<close> whose temperature is \<open>null\<close>.\<close>

definition null_temperature :: json where
  "null_temperature = JDict [(''current'', JDict [(''temp_c'', JNull)])]"

text \<open>The rounding of \<open>float\<close> on numbers that are doubles already.\<close>

definition exact_float :: "rat \<Rightarrow> rat" where
  "exact_float q = q"

section \<open>Wind direction\<close>

lemma wind_index_bounds: "0 \<le> wind_index d \<and> wind_index d < 16"
  by (simp add: wind_index_def Let_def)

lemma length_directions: "length directions = 16"
  by (simp add: directions_def)

text \<open>
  C10. For every integer \<open>degrees\<close> (negative, or 360 and more, included) the index computed
  by \<open>get_wind_direction\<close> lies within the 16-element table, the lookup does not raise,
  and the result is one of the 16 compass labels.
\<close>

theorem get_wind_direction_total:
  "0 \<le> wind_index d \<and> wind_index d < int (length directions) \<and>
   get_wind_direction d = Inr (directions ! nat (wind_index d)) \<and>
   directions ! nat (wind_index d) \<in> set directions"
proof -
  have b: "0 \<le> wind_index d" "wind_index d < 16"
    using wind_index_bounds [of d] by simp_all
  then have n: "nat (wind_index d) < length directions"
    by (simp add: length_directions)
  have "get_wind_direction d = Inr (directions ! nat (wind_index d))"
    using b by (simp add: get_wind_direction_def list_get_def length_directions)
  with b n show ?thesis
    by (simp add: length_directions)
qed

section \<open>Sequencing of fallible steps\<close>

lemma and_then_Inr: "and_then m f = Inr r \<longleftrightarrow> (\<exists>v. m = Inr v \<and> f v = Inr r)"
  by (cases m) (simp_all add: and_then_def)

lemma and_then_simps: "and_then (Inr v) f = f v" "and_then (Inl e) f = Inl e"
  by (simp_all add: and_then_def)

lemma dict_get_Inr:
  "dict_get x k d = Inr v \<Longrightarrow> \<exists>kvs. x = JDict kvs \<and> v = (case map_of kvs k of Some w \<Rightarrow> w | None \<Rightarrow> d)"
  by (cases x) auto

lemma list_get_nat: "j < length xs \<Longrightarrow> list_get xs (int j) = Inr (xs ! j)"
  by (simp add: list_get_def)

lemma make_request_always: "make_request (always d) api_key endpoint params = d"
  by (simp add: make_request_def always_def)

lemma make_request_timed_out: "make_request timed_out api_key endpoint params = JNull"
  by (simp add: make_request_def timed_out_def)

section \<open>Current conditions\<close>

lemma current_weather_of_sun:
  assumes "current_weather_of py_str data = Inr r" and "r \<noteq> JNull"
  shows "dict_get r ''sunrise'' d = Inr (JStr ''05:52 AM'')"
    and "dict_get r ''sunset'' d = Inr (JStr ''08:11 PM'')"
  using assms by (auto simp: current_weather_of_def and_then_Inr split: if_splits)

text \<open>
  C8. Whatever the location and whatever the provider answers, a successful
  \<open>get_current_weather\<close> (a result that is not \<open>None\<close>) has \<open>sunrise\<close> equal to the string
  \<open>05:52 AM\<close> and \<open>sunset\<close> equal to the string \<open>08:11 PM\<close>.
\<close>

theorem get_current_weather_sun_constant:
  assumes "get_current_weather py_str net api_key location = Inr r" and "r \<noteq> JNull"
  shows "dict_get r ''sunrise'' d = Inr (JStr ''05:52 AM'') \<and>
         dict_get r ''sunset'' d = Inr (JStr ''08:11 PM'')"
  using assms current_weather_of_sun [of py_str _ r d]
  by (simp add: get_current_weather_def)

theorem get_current_weather_sun_constant_witness:
  "get_current_weather str_of_text (always paris_current) ''key'' ''Paris'' =
     Inr (JDict
       [(''location'', JStr ''Paris, France''), (''temperature'', JNum (37 / 2)),
        (''feels_like'', JNum 0), (''humidity'', JNum 60), (''wind_speed'', JNum 0),
        (''wind_direction'', JNum 0), (''condition'', JStr ''Sunny''), (''pressure'', JNum 0),
        (''visibility'', JNum 0), (''uv_index'', JNum 0), (''last_updated'', JStr []),
        (''sunrise'', JStr ''05:52 AM''), (''sunset'', JStr ''08:11 PM'')]) \<and>
   dict_get (JDict
       [(''location'', JStr ''Paris, France''), (''temperature'', JNum (37 / 2)),
        (''feels_like'', JNum 0), (''humidity'', JNum 60), (''wind_speed'', JNum 0),
        (''wind_direction'', JNum 0), (''condition'', JStr ''Sunny''), (''pressure'', JNum 0),
        (''visibility'', JNum 0), (''uv_index'', JNum 0), (''last_updated'', JStr []),
        (''sunrise'', JStr ''05:52 AM''), (''sunset'', JStr ''08:11 PM'')]) ''sunrise'' JNull =
     Inr (JStr ''05:52 AM'')"
  (is "?g = Inr ?r \<and> _")
proof -
  have e: "?g = Inr ?r" by code_simp
  have n: "?r \<noteq> JNull" by simp
  from get_current_weather_sun_constant [OF e n, of JNull] e show ?thesis by simp
qed

section \<open>The 12-hour forecast\<close>

lemma hour_entry_JStr: "hour_entry (JStr s) = Inl AttributeError"
  by (simp add: hour_entry_def and_then_def)

lemma next_hours_entries:
  "next_hours hours n h is = Inr xs \<Longrightarrow>
   map Inr xs = map (\<lambda>j. and_then (py_index hours (int j)) hour_entry)
                  (filter (\<lambda>j. j < n) (map (\<lambda>i. (h + i) mod 24) is))"
proof (induction "is" arbitrary: xs)
  case Nil
  then show ?case by simp
next
  case (Cons i "is")
  show ?case
  proof (cases "(h + i) mod 24 < n")
    case True
    with Cons.prems obtain hd e rest where
      a: "py_index hours (int ((h + i) mod 24)) = Inr hd" "hour_entry hd = Inr e"
         "next_hours hours n h is = Inr rest" "xs = e # rest"
      by (auto simp: and_then_Inr Let_def)
    from Cons.IH [OF a(3)] a True show ?thesis
      by (simp add: and_then_simps)
  next
    case False
    with Cons.prems have "next_hours hours n h is = Inr xs" by (simp add: Let_def)
    from Cons.IH [OF this] False show ?thesis by simp
  qed
qed

lemma window_offset:
  assumes "i < 12"
  shows "((h + i) mod 24 + 24 - h mod 24) mod 24 = (i::nat)"
proof -
  define a where "a = h mod 24"
  have a: "a < 24" by (simp add: a_def)
  have e: "(h + i) mod 24 = (a + i) mod 24"
    unfolding a_def by (rule mod_add_left_eq [symmetric])
  show ?thesis
  proof (cases "a + i < 24")
    case True
    then have "(a + i) mod 24 = a + i" by simp
    then have "(a + i) mod 24 + 24 - a = i + 24" by simp
    then show ?thesis using assms e unfolding a_def [symmetric] by simp
  next
    case False
    then have "(a + i) mod 24 = a + i - 24"
      using a assms by (simp add: mod_if)
    then have "(a + i) mod 24 + 24 - a = i" using False by simp
    then show ?thesis using assms e unfolding a_def [symmetric] by simp
  qed
qed

lemma window_offsets:
  "map (\<lambda>j. (j + 24 - h mod 24) mod 24) (map (\<lambda>i. (h + i) mod 24) [0..<12]) = [0..<12]"
  by (rule nth_equalityI) (simp_all add: window_offset)


lemma window_indices_length: "length (window_indices h n) \<le> 12"
proof -
  have "length (window_indices h n) \<le> length (map (\<lambda>i. (h + i) mod 24) [0..<12])"
    unfolding window_indices_def by (rule length_filter_le)
  then show ?thesis by simp
qed

lemma window_indices_sorted:
  "sorted_wrt (<) (map (\<lambda>j. (j + 24 - h mod 24) mod 24) (window_indices h n))"
proof -
  let ?f = "\<lambda>j. (j + 24 - h mod 24) mod 24"
  let ?all = "map (\<lambda>i. (h + i) mod 24) [0..<12]"
  have "sorted_wrt (<) (map ?f ?all)"
    by (simp only: window_offsets) simp
  then have "sorted_wrt (\<lambda>a b. ?f a < ?f b) ?all"
    by (simp only: sorted_wrt_map)
  then have "sorted_wrt (\<lambda>a b. ?f a < ?f b) (filter (\<lambda>j. j < n) ?all)"
    by (rule sorted_wrt_filter)
  then show ?thesis
    by (simp only: window_indices_def sorted_wrt_map)
qed

lemma next_hours_window:
  assumes "next_hours hours n h [0..<12] = Inr xs" and "py_len hours = Inr n"
  shows "map Inr xs =
         map hour_entry (map (\<lambda>j. (case hours of JList hs \<Rightarrow> hs | _ \<Rightarrow> []) ! j)
           (window_indices h (length (case hours of JList hs \<Rightarrow> hs | _ \<Rightarrow> []))))"
proof -
  note e = next_hours_entries [OF assms(1), folded window_indices_def]
  show ?thesis
  proof (cases hours)
    case (JList hs)
    with assms(2) have n: "n = length hs" by simp
    have "and_then (py_index hours (int j)) hour_entry = hour_entry (hs ! j)"
      if "j \<in> set (window_indices h n)" for j
    proof -
      from that have "j < length hs" by (simp add: window_indices_def n)
      then show ?thesis by (simp add: JList list_get_nat and_then_simps)
    qed
    with e show ?thesis by (simp add: JList n cong: map_cong)
  next
    case (JStr s)
    with assms(2) have n: "n = length s" by simp
    have "window_indices h n = []"
    proof (rule ccontr)
      assume "window_indices h n \<noteq> []"
      then obtain j js where w: "window_indices h n = j # js" by (cases "window_indices h n") auto
      then have "j \<in> set (window_indices h n)" by simp
      then have "j < length s" by (simp add: window_indices_def n)
      then have "and_then (py_index hours (int j)) hour_entry = Inl AttributeError"
        by (simp add: JStr list_get_nat and_then_simps hour_entry_JStr)
      with e w show False by (cases xs) auto
    qed
    with e show ?thesis by (simp add: JStr window_indices_def)
  next
    case (JDict kvs)
    with assms(2) have n: "n = length kvs" by simp
    have "window_indices h n = []"
    proof (rule ccontr)
      assume "window_indices h n \<noteq> []"
      then obtain j js where w: "window_indices h n = j # js" by (cases "window_indices h n") auto
      have "and_then (py_index hours (int j)) hour_entry = Inl KeyError"
        by (simp add: JDict and_then_simps)
      with e w show False by (cases xs) auto
    qed
    with e show ?thesis by (simp add: JDict window_indices_def)
  qed (use assms(2) in simp_all)
qed


lemma forecast_12hour_of_window:
  assumes "forecast_12hour_of h data = Inr xs"
  shows "map Inr xs =
         map hour_entry (map (\<lambda>j. provider_hours data ! j)
           (window_indices h (length (provider_hours data))))"
proof (cases "py_truthy data")
  case False
  with assms show ?thesis
    by (simp add: forecast_12hour_of_def provider_hours_def window_indices_def)
next
  case True
  with assms obtain fc forecast_data where
    g: "dict_get data ''forecast'' (JDict []) = Inr fc"
       "dict_get fc ''forecastday'' (JList []) = Inr forecast_data"
    and r: "(if py_truthy forecast_data then
              and_then (py_index forecast_data 0) (\<lambda>today.
              and_then (dict_get today ''hour'' (JList [])) (\<lambda>hours.
              and_then (py_len hours) (\<lambda>n. next_hours hours n h [0..<12])))
            else Inr []) = Inr xs"
    by (auto simp: forecast_12hour_of_def and_then_Inr)
  from dict_get_Inr [OF g(1)] obtain kvs where
    d: "data = JDict kvs" "fc = (case map_of kvs ''forecast'' of Some w \<Rightarrow> w | None \<Rightarrow> JDict [])"
    by blast
  from dict_get_Inr [OF g(2)] obtain fkvs where
    f: "fc = JDict fkvs"
       "forecast_data = (case map_of fkvs ''forecastday'' of Some w \<Rightarrow> w | None \<Rightarrow> JList [])"
    by blast
  show ?thesis
  proof (cases "py_truthy forecast_data")
    case False
    with r have "xs = []" by simp
    moreover have "provider_hours data = []"
      using False True d f
      by (auto simp: provider_hours_def split: option.splits json.splits list.splits)
    ultimately show ?thesis by (simp add: window_indices_def)
  next
    case t: True
    with r obtain today hours n where
      x: "py_index forecast_data 0 = Inr today"
         "dict_get today ''hour'' (JList []) = Inr hours"
         "py_len hours = Inr n"
         "next_hours hours n h [0..<12] = Inr xs"
      by (auto simp: and_then_Inr)
    from dict_get_Inr [OF x(2)] obtain tkvs where
      y: "today = JDict tkvs"
         "hours = (case map_of tkvs ''hour'' of Some w \<Rightarrow> w | None \<Rightarrow> JList [])"
      by blast
    have "provider_hours data = (case hours of JList hs \<Rightarrow> hs | _ \<Rightarrow> [])"
    proof (cases forecast_data)
      case (JList days)
      with x(1) y(1) t obtain later where "days = JDict tkvs # later"
        by (cases days) (auto simp: list_get_def)
      with JList True d f y show ?thesis
        by (auto simp: provider_hours_def split: option.splits json.splits)
    next
      case (JStr s)
      with x(1) y(1) show ?thesis
        by (auto simp: list_get_def split: if_splits)
    qed (use x(1) in simp_all)
    with next_hours_window [OF x(4) x(3)] show ?thesis by simp
  qed
qed

text \<open>
  The forecast is returned, not raised, when every hour entry in the window has a
  \<open>time\<close> of the provider's format and a condition that is absent or a dictionary.
\<close>

lemma hour_entry_returns:
  assumes "map_of kvs ''time'' = Some (JStr t)" and "strptime_ymd_hm t = Inr tm"
    and "map_of kvs ''condition'' = None \<or> (\<exists>c. map_of kvs ''condition'' = Some (JDict c))"
  shows "\<exists>e. hour_entry (JDict kvs) = Inr e"
  using assms by (auto simp: hour_entry_def and_then_simps strptime_time_def)

lemma next_hours_returns:
  assumes "\<forall>j \<in> set (window_indices h (length hs)). \<exists>e. hour_entry (hs ! j) = Inr e"
  shows "\<exists>xs. next_hours (JList hs) (length hs) h [0..<12] = Inr xs"
proof -
  have "\<exists>xs. next_hours (JList hs) (length hs) h is = Inr xs"
    if "\<forall>i \<in> set is. (h + i) mod 24 < length hs \<longrightarrow> (\<exists>e. hour_entry (hs ! ((h + i) mod 24)) = Inr e)"
    for "is"
    using that
  proof (induction "is")
    case Nil
    then show ?case by simp
  next
    case (Cons i "is")
    then obtain rest where r: "next_hours (JList hs) (length hs) h is = Inr rest" by auto
    show ?case
    proof (cases "(h + i) mod 24 < length hs")
      case True
      with Cons.prems obtain e where "hour_entry (hs ! ((h + i) mod 24)) = Inr e" by auto
      with True r show ?thesis by (simp add: Let_def list_get_nat and_then_simps)
    next
      case False
      with r show ?thesis by (simp add: Let_def)
    qed
  qed
  moreover have "\<forall>i \<in> set [0..<12]. (h + i) mod 24 < length hs \<longrightarrow>
                   (\<exists>e. hour_entry (hs ! ((h + i) mod 24)) = Inr e)"
    using assms by (auto simp: window_indices_def)
  ultimately show ?thesis by blast
qed

lemma get_12hour_forecast_returns:
  assumes "\<forall>j \<in> set (window_indices h (length hs)). \<exists>e. hour_entry (hs ! j) = Inr e"
  shows "\<exists>xs. get_12hour_forecast h (always (hourly_response hs)) api_key location = Inr xs"
  using next_hours_returns [OF assms]
  by (simp add: get_12hour_forecast_def make_request_always forecast_12hour_of_def
      hourly_response_def and_then_simps list_get_def)

lemma has_hour_list_shape:
  assumes "has_hour_list data"
  shows "\<exists>kvs fc today later hs.
           data = JDict kvs \<and> map_of kvs ''forecast'' = Some (JDict fc) \<and>
           map_of fc ''forecastday'' = Some (JList (JDict today # later)) \<and>
           map_of today ''hour'' = Some (JList hs)"
proof -
  from assms obtain kvs where 1: "data = JDict kvs"
    by (cases data) (simp_all add: has_hour_list_def)
  with assms obtain fc where 2: "map_of kvs ''forecast'' = Some (JDict fc)"
    by (cases "map_of kvs ''forecast''")
       (auto simp: has_hour_list_def split: json.splits)
  with assms 1 obtain days where 3: "map_of fc ''forecastday'' = Some (JList days)"
    by (cases "map_of fc ''forecastday''")
       (auto simp: has_hour_list_def split: json.splits)
  with assms 1 2 obtain first later where 4: "days = first # later"
    by (cases days) (auto simp: has_hour_list_def)
  with assms 1 2 3 obtain today where 5: "first = JDict today"
    by (cases first) (auto simp: has_hour_list_def)
  with assms 1 2 3 4 obtain hs where 6: "map_of today ''hour'' = Some (JList hs)"
    by (cases "map_of today ''hour''")
       (auto simp: has_hour_list_def split: json.splits)
  from 1 2 3 4 5 6 show ?thesis by blast
qed

lemma forecast_12hour_of_has_hours:
  assumes "has_hour_list data"
  shows "forecast_12hour_of h data =
         next_hours (JList (provider_hours data)) (length (provider_hours data)) h [0..<12]"
proof -
  from has_hour_list_shape [OF assms] obtain kvs fc today later hs where
    s: "data = JDict kvs" "map_of kvs ''forecast'' = Some (JDict fc)"
       "map_of fc ''forecastday'' = Some (JList (JDict today # later))"
       "map_of today ''hour'' = Some (JList hs)"
    by blast
  from s(1,2) have t: "kvs \<noteq> []" by auto
  from s t have p: "provider_hours data = hs"
    by (simp add: provider_hours_def)
  from s t show ?thesis
    unfolding p by (simp add: forecast_12hour_of_def and_then_simps list_get_def)
qed

lemma window_indices_head:
  "(window_indices h n \<noteq> [] \<and> hd (window_indices h n) = h mod 24) = (h mod 24 < n)"
proof -
  have u: "[0..<12] = 0 # [1..<12]" by (simp add: upt_conv_Cons)
  have w: "window_indices h n =
           filter (\<lambda>j. j < n) (h mod 24 # map (\<lambda>i. (h + i) mod 24) [1..<12])"
    unfolding window_indices_def u by simp
  show ?thesis
  proof (cases "h mod 24 < n")
    case True
    then show ?thesis by (simp add: w)
  next
    case False
    have "\<not> (window_indices h n \<noteq> [] \<and> hd (window_indices h n) = h mod 24)"
    proof
      assume a: "window_indices h n \<noteq> [] \<and> hd (window_indices h n) = h mod 24"
      then have "window_indices h n \<noteq> []" by simp
      then have "hd (window_indices h n) \<in> set (window_indices h n)" by (rule hd_in_set)
      then have "hd (window_indices h n) < n" unfolding window_indices_def by simp
      with a False show False by simp
    qed
    with False show ?thesis by simp
  qed
qed

lemma provider_hours_response: "provider_hours (hourly_response hs) = hs"
  by (simp add: provider_hours_def hourly_response_def)

lemma has_hour_list_response: "has_hour_list (hourly_response hs)"
  by (simp add: has_hour_list_def hourly_response_def)

text \<open>
  C6, as the claim states it, fails: at the local hour 20, on a response whose hour list
  holds the hours 00 to 04 only, \<open>get_12hour_forecast\<close> returns the entries of the hours
  00 to 04. The forecast does not start at the current hour.
\<close>

theorem get_12hour_forecast_short_list:
  "get_12hour_forecast 20 (always early_hours) ''key'' ''Paris'' =
     Inr [normal_hour 0, normal_hour 1, normal_hour 2, normal_hour 3, normal_hour 4] \<and>
   provider_hours early_hours = [hour_at 0, hour_at 1, hour_at 2, hour_at 3, hour_at 4] \<and>
   hour_entry (hour_at 0) = Inr (normal_hour 0) \<and>
   hour_entry (hour_at 20) = Inr (normal_hour 20)"
  by code_simp

text \<open>
  C6, amended. For every provider response and every current hour: a forecast that
  \<open>get_12hour_forecast\<close> returns has at most 12 entries, which are the normalised entries
  of the provider's hour list at the indices \<open>(currentHour + i) mod 24\<close>, \<open>i\<close> in \<open>0..11\<close>,
  that the list has, in the order of \<open>i\<close>; along these indices the distance from the
  current hour, counted forward around the 24-hour clock, strictly increases; the first
  index is the current hour exactly when the list has an entry for it; and the forecast is
  returned whenever the response has an hour list and every entry of the list at these
  indices is normalised without a raise.
\<close>

theorem get_12hour_forecast_window:
  fixes net :: transport
  defines "data \<equiv> \<lambda>net api_key location. make_request net api_key ''forecast.json''
            [(''q'', location), (''hours'', ''24''), (''aqi'', ''no'')]"
  defines "hours \<equiv> \<lambda>net api_key location. provider_hours (data net api_key location)"
  defines "window \<equiv> \<lambda>current_hour net api_key location.
            window_indices current_hour (length (hours net api_key location))"
  shows "(\<forall>forecast. get_12hour_forecast current_hour net api_key location = Inr forecast \<longrightarrow>
            length forecast \<le> 12 \<and>
            map Inr forecast =
              map hour_entry (map (\<lambda>j. hours net api_key location ! j)
                (window current_hour net api_key location))) \<and>
         sorted_wrt (<) (map (\<lambda>j. (j + 24 - current_hour mod 24) mod 24)
           (window current_hour net api_key location)) \<and>
         ((window current_hour net api_key location \<noteq> [] \<and>
           hd (window current_hour net api_key location) = current_hour mod 24) =
          (current_hour mod 24 < length (hours net api_key location))) \<and>
         (has_hour_list (data net api_key location) \<and>
          (\<forall>j \<in> set (window current_hour net api_key location).
             \<exists>e. hour_entry (hours net api_key location ! j) = Inr e) \<longrightarrow>
            (\<exists>forecast. get_12hour_forecast current_hour net api_key location = Inr forecast))"
proof -
  let ?d = "data net api_key location"
  let ?hs = "provider_hours ?d"
  let ?w = "window_indices current_hour (length ?hs)"
  have g: "get_12hour_forecast current_hour net api_key location =
           forecast_12hour_of current_hour ?d"
    by (simp add: get_12hour_forecast_def data_def)
  have 1: "length forecast \<le> 12 \<and> map Inr forecast = map hour_entry (map (\<lambda>j. ?hs ! j) ?w)"
    if "get_12hour_forecast current_hour net api_key location = Inr forecast" for forecast
  proof -
    from that g have a: "forecast_12hour_of current_hour ?d = Inr forecast" by simp
    note w = forecast_12hour_of_window [OF a]
    have "length (map Inr forecast :: (py_error + json) list) \<le> 12"
      unfolding w using window_indices_length [of current_hour] by simp
    then have "length forecast \<le> 12" by simp
    with w show ?thesis by simp
  qed
  have 2: "sorted_wrt (<) (map (\<lambda>j. (j + 24 - current_hour mod 24) mod 24) ?w)"
    by (rule window_indices_sorted)
  have 3: "(?w \<noteq> [] \<and> hd ?w = current_hour mod 24) = (current_hour mod 24 < length ?hs)"
    by (rule window_indices_head)
  have 4: "\<exists>forecast. get_12hour_forecast current_hour net api_key location = Inr forecast"
    if "has_hour_list ?d" and "\<forall>j \<in> set ?w. \<exists>e. hour_entry (?hs ! j) = Inr e"
    using next_hours_returns [OF that(2)] forecast_12hour_of_has_hours [OF that(1)] g by simp
  from 1 2 3 4 show ?thesis
    unfolding hours_def window_def by blast
qed

lemma length_whole_day: "length (provider_hours whole_day) = 24"
  by (simp add: whole_day_def provider_hours_response)

lemma window_indices_evening:
  "window_indices 20 24 = [20, 21, 22, 23, 0, 1, 2, 3, 4, 5, 6, 7]"
  by code_simp

theorem get_12hour_forecast_window_witness:
  "get_12hour_forecast 20 (always whole_day) ''key'' ''Paris'' =
     Inr [normal_hour 20, normal_hour 21, normal_hour 22, normal_hour 23, normal_hour 0,
          normal_hour 1, normal_hour 2, normal_hour 3, normal_hour 4, normal_hour 5,
          normal_hour 6, normal_hour 7] \<and>
   has_hour_list whole_day \<and>
   window_indices 20 (length (provider_hours whole_day)) =
     [20, 21, 22, 23, 0, 1, 2, 3, 4, 5, 6, 7] \<and>
   map hour_entry (map (\<lambda>j. provider_hours whole_day ! j)
       (window_indices 20 (length (provider_hours whole_day)))) =
     map Inr [normal_hour 20, normal_hour 21, normal_hour 22, normal_hour 23, normal_hour 0,
              normal_hour 1, normal_hour 2, normal_hour 3, normal_hour 4, normal_hour 5,
              normal_hour 6, normal_hour 7] \<and>
   (20::nat) mod 24 < length (provider_hours whole_day) \<and>
   hd (window_indices 20 (length (provider_hours whole_day))) = 20"
  (is "?g = Inr ?r \<and> ?h \<and> ?w \<and> ?m \<and> ?l \<and> ?f")
proof -
  have e: "?g = Inr ?r" by code_simp
  have h: ?h by (simp add: whole_day_def has_hour_list_response)
  have w: ?w by (simp only: length_whole_day window_indices_evening)
  have l: ?l by (simp add: length_whole_day)
  note t = get_12hour_forecast_window [of 20 "always whole_day" "''key''" "''Paris''",
      unfolded make_request_always]
  from t e have "map Inr ?r = map hour_entry (map (\<lambda>j. provider_hours whole_day ! j)
       (window_indices 20 (length (provider_hours whole_day))))"
    by blast
  then have m: ?m by simp
  from t l have f: ?f by simp
  from e h w m l f show ?thesis by simp
qed

text \<open>
  C3. \<open>get_12hour_forecast\<close> calls \<open>datetime.strptime\<close> outside any \<open>try\<close>, where
  \<open>get_7day_forecast\<close> guards the same call. On a response with status 200 whose hour
  entries have no \<open>time\<close> field, the default \<open>''\<close> does not match the format and the
  \<open>ValueError\<close> leaves the client.
\<close>

theorem get_12hour_forecast_raises_on_missing_time:
  "get_12hour_forecast 9 (always day_without_times) ''key'' ''Paris'' = Inl ValueError"
  by code_simp

section \<open>Air quality\<close>

text \<open>
  C4. \<open>get_air_quality\<close> chooses the status from the composite value before truncating
  it. With PM10 at 50.5 and every other term below it, the returned \<open>aqi\<close> is 50 and the
  returned status is \<open>Moderate\<close>, while the band of 50 is \<open>Good\<close>.
\<close>

theorem get_air_quality_status_disagrees_with_aqi:
  "get_air_quality (always paris_current) ''key'' ''Paris'' =
     Inr (JDict [(''aqi'', JNum 50), (''status'', JStr ''Moderate''), (''co'', JNum 230),
                 (''no2'', JNum 0), (''o3'', JNum 0), (''pm25'', JNum 0),
                 (''pm10'', JNum (101 / 2))]) \<and>
   aqi_status 50 = ''Good''"
  by code_simp

section \<open>The 7-day forecast\<close>

lemma each_day_entries:
  "each_day days = Inr xs \<Longrightarrow> map Inr xs = map day_entry days"
proof (induction days arbitrary: xs)
  case Nil
  then show ?case by simp
next
  case (Cons d ds)
  then obtain e rest where
    a: "day_entry d = Inr e" "each_day ds = Inr rest" "xs = e # rest"
    by (auto simp: and_then_Inr)
  from Cons.IH [OF a(2)] a show ?case by simp
qed

lemma day_entry_JStr: "day_entry (JStr s) = Inl AttributeError"
  by (simp add: day_entry_def and_then_def)

lemma forecast_7day_of_entries:
  assumes "forecast_7day_of data = Inr xs"
  shows "map Inr xs = map day_entry (provider_days data)"
proof (cases "py_truthy data")
  case False
  with assms show ?thesis by (simp add: forecast_7day_of_def provider_days_def)
next
  case True
  with assms obtain fc forecast_data items where
    g: "dict_get data ''forecast'' (JDict []) = Inr fc"
       "dict_get fc ''forecastday'' (JList []) = Inr forecast_data"
       "py_iter forecast_data = Inr items" "each_day items = Inr xs"
    by (auto simp: forecast_7day_of_def and_then_Inr)
  from dict_get_Inr [OF g(1)] obtain kvs where
    d: "data = JDict kvs" "fc = (case map_of kvs ''forecast'' of Some w \<Rightarrow> w | None \<Rightarrow> JDict [])"
    by blast
  from dict_get_Inr [OF g(2)] obtain fkvs where
    f: "fc = JDict fkvs"
       "forecast_data = (case map_of fkvs ''forecastday'' of Some w \<Rightarrow> w | None \<Rightarrow> JList [])"
    by blast
  note e = each_day_entries [OF g(4)]
  show ?thesis
  proof (cases forecast_data)
    case (JList days)
    with g(3) have "items = days" by simp
    moreover from JList True d f have "provider_days data = days"
      by (auto simp: provider_days_def split: option.splits json.splits)
    ultimately show ?thesis using e by simp
  next
    case (JStr s)
    with g(3) have i: "items = map (\<lambda>c. JStr [c]) s" by simp
    have "s = []"
    proof (cases s)
      case (Cons c cs)
      with e i show ?thesis by (cases xs) (auto simp: day_entry_JStr)
    qed simp
    with i e have "xs = []" by simp
    moreover from JStr True d f have "provider_days data = []"
      by (auto simp: provider_days_def split: option.splits json.splits)
    ultimately show ?thesis by simp
  next
    case (JDict ks)
    with g(3) have i: "items = map (\<lambda>kv. JStr (fst kv)) ks" by simp
    have "ks = []"
    proof (cases ks)
      case (Cons c cs)
      with e i show ?thesis by (cases xs) (auto simp: day_entry_JStr)
    qed simp
    with i e have "xs = []" by simp
    moreover from JDict True d f have "provider_days data = []"
      by (auto simp: provider_days_def split: option.splits json.splits)
    ultimately show ?thesis by simp
  qed (use g(3) in simp_all)
qed

text \<open>
  The forecast is returned, not raised, when every day entry is a dictionary whose
  \<open>day\<close> and whose condition are absent or dictionaries.
\<close>

lemma day_entry_returns:
  assumes "map_of kvs ''day'' = None \<or>
           (\<exists>day. map_of kvs ''day'' = Some (JDict day) \<and>
              (map_of day ''condition'' = None \<or> (\<exists>c. map_of day ''condition'' = Some (JDict c))))"
  shows "\<exists>e. day_entry (JDict kvs) = Inr e"
  using assms by (auto simp: day_entry_def and_then_simps)

lemma each_day_returns:
  "\<forall>d \<in> set days. \<exists>e. day_entry d = Inr e \<Longrightarrow> \<exists>xs. each_day days = Inr xs"
  by (induction days) (auto simp: and_then_simps)

lemma get_7day_forecast_returns:
  assumes "\<forall>d \<in> set days. \<exists>e. day_entry d = Inr e"
  shows "\<exists>xs. get_7day_forecast (always (daily_response days)) api_key location = Inr xs"
  using each_day_returns [OF assms]
  by (simp add: get_7day_forecast_def make_request_always forecast_7day_of_def
      daily_response_def and_then_simps)

text \<open>
  C5, as the claim states it, fails: with eight forecast days in the provider's response
  \<open>get_7day_forecast\<close> returns eight entries.
\<close>

theorem get_7day_forecast_eight_days:
  "map_sum id length (get_7day_forecast (always eight_days) ''key'' ''Paris'') = Inr 8"
  by code_simp

text \<open>
  C5, amended. Whenever \<open>get_7day_forecast\<close> returns, its result has exactly one entry
  for each forecast day of the provider's response, in the provider's order: as many
  entries as the provider sent, and at most 7 when the provider sent at most 7.
\<close>

theorem get_7day_forecast_one_entry_per_day:
  fixes net :: transport
  defines "data \<equiv> \<lambda>net api_key location. make_request net api_key ''forecast.json''
            [(''q'', location), (''days'', ''7''), (''aqi'', ''no'')]"
  assumes "get_7day_forecast net api_key location = Inr forecast"
  shows "map Inr forecast = map day_entry (provider_days (data net api_key location)) \<and>
         length forecast = length (provider_days (data net api_key location)) \<and>
         (length (provider_days (data net api_key location)) \<le> 7 \<longrightarrow> length forecast \<le> 7)"
proof -
  from assms(2) have "forecast_7day_of (data net api_key location) = Inr forecast"
    by (simp add: get_7day_forecast_def data_def)
  then have m: "map Inr forecast = map day_entry (provider_days (data net api_key location))"
    by (rule forecast_7day_of_entries)
  then have "length (map Inr forecast :: (py_error + json) list) =
             length (map day_entry (provider_days (data net api_key location)))"
    by simp
  then have "length forecast = length (provider_days (data net api_key location))"
    by simp
  with m show ?thesis by simp
qed

theorem get_7day_forecast_one_entry_per_day_witness:
  "get_7day_forecast (always (daily_response [day_at 1, day_at 2])) ''key'' ''Paris'' =
     Inr [JDict [(''date'', JStr ''Mon, Jan 01''), (''temp_min'', JNum 1), (''temp_max'', JNum 1),
                 (''condition'', JStr []), (''precipitation_chance'', JNum 0),
                 (''humidity'', JNum 0)],
          JDict [(''date'', JStr ''Tue, Jan 02''), (''temp_min'', JNum 1), (''temp_max'', JNum 2),
                 (''condition'', JStr []), (''precipitation_chance'', JNum 0),
                 (''humidity'', JNum 0)]] \<and>
   provider_days (daily_response [day_at 1, day_at 2]) = [day_at 1, day_at 2] \<and>
   length (provider_days (daily_response [day_at 1, day_at 2])) \<le> 7 \<and>
   map day_entry (provider_days (daily_response [day_at 1, day_at 2])) =
     [Inr (JDict [(''date'', JStr ''Mon, Jan 01''), (''temp_min'', JNum 1), (''temp_max'', JNum 1),
                  (''condition'', JStr []), (''precipitation_chance'', JNum 0),
                  (''humidity'', JNum 0)]),
      Inr (JDict [(''date'', JStr ''Tue, Jan 02''), (''temp_min'', JNum 1), (''temp_max'', JNum 2),
                  (''condition'', JStr []), (''precipitation_chance'', JNum 0),
                  (''humidity'', JNum 0)])]"
  (is "?g = Inr ?r \<and> ?p \<and> ?l \<and> ?m")
proof -
  have e: "?g = Inr ?r" by code_simp
  have p: ?p by (simp add: provider_days_def daily_response_def)
  from get_7day_forecast_one_entry_per_day [OF e] have "?m"
    by (simp only: make_request_always) simp
  with e p show ?thesis by simp
qed

section \<open>Location input\<close>

lemma not_digit [simp]:
  "\<not> is_digit CHR ''-''" "\<not> is_digit CHR ''.''" "\<not> is_digit CHR '',''"
  by (simp_all add: is_digit_def)

lemma not_space [simp]:
  "\<not> is_space CHR ''-''" "\<not> is_space CHR ''.''" "\<not> is_space CHR '',''"
  by (simp_all add: is_space_def)

lemma digit_not_space: "is_digit c \<Longrightarrow> \<not> is_space c"
  by (auto simp: is_digit_def is_space_def)

lemma digit_not_comma: "is_digit c \<Longrightarrow> c \<noteq> CHR '',''"
  by (auto simp: is_digit_def)

lemma space_not_comma: "is_space c \<Longrightarrow> c \<noteq> CHR '',''"
  by (auto simp: is_space_def)

lemma takeWhile_run:
  assumes "list_all P xs" and "rest = [] \<or> \<not> P (hd rest)"
  shows "takeWhile P (xs @ rest) = xs" and "dropWhile P (xs @ rest) = rest"
proof -
  from assms(1) have a: "\<And>x. x \<in> set xs \<Longrightarrow> P x" by (simp add: list_all_iff)
  from assms(2) have t: "takeWhile P rest = []" and d: "dropWhile P rest = rest"
    by (cases rest; auto)+
  show "takeWhile P (xs @ rest) = xs" using a t by (simp add: takeWhile_append2)
  show "dropWhile P (xs @ rest) = rest" using a d by (simp add: dropWhile_append2)
qed

lemma optional_char_decimal:
  assumes "well_formed ds fs"
  shows "optional_char CHR ''-'' (decimal neg ds fs @ rest) =
         ((if neg then ''-'' else []),
          ds @ (case fs of None \<Rightarrow> [] | Some f \<Rightarrow> CHR ''.'' # f) @ rest)"
proof -
  from assms obtain d ds' where ds: "ds = d # ds'" "is_digit d"
    by (cases ds) (auto simp: well_formed_def)
  then have "d \<noteq> CHR ''-''" by auto
  with ds show ?thesis by (simp add: optional_char_def decimal_def)
qed

lemma match_number_decimal:
  assumes "well_formed ds fs" and "rest = [] \<or> hd rest = CHR '',''"
  shows "match_number (decimal neg ds fs @ rest) = Some (decimal neg ds fs, rest)"
proof -
  from assms(1) have ds: "ds \<noteq> []" "list_all is_digit ds" by (simp_all add: well_formed_def)
  from assms(2) have r: "rest = [] \<or> \<not> is_digit (hd rest)" by auto
  show ?thesis
  proof (cases fs)
    case None
    have 1: "takeWhile is_digit (ds @ rest) = ds" "dropWhile is_digit (ds @ rest) = rest"
      using takeWhile_run [OF ds(2) r] by simp_all
    have 2: "optional_char CHR ''.'' rest = ([], rest)"
      using assms(2) by (cases rest) (auto simp: optional_char_def)
    have 3: "takeWhile is_digit rest = []" "dropWhile is_digit rest = rest"
      using r by (cases rest; auto)+
    show ?thesis
      using optional_char_decimal [OF assms(1), of neg rest] ds(1)
      by (simp add: match_number_def None 1 2 3 decimal_def)
  next
    case (Some f)
    with assms(1) have f: "list_all is_digit f" by (simp add: well_formed_def)
    have 1: "takeWhile is_digit (ds @ CHR ''.'' # f @ rest) = ds"
            "dropWhile is_digit (ds @ CHR ''.'' # f @ rest) = CHR ''.'' # f @ rest"
      using takeWhile_run [OF ds(2), of "CHR ''.'' # f @ rest"] by simp_all
    have 2: "optional_char CHR ''.'' (CHR ''.'' # f @ rest) = (''.'', f @ rest)"
      by (simp add: optional_char_def)
    have 3: "takeWhile is_digit (f @ rest) = f" "dropWhile is_digit (f @ rest) = rest"
      using takeWhile_run [OF f r] by simp_all
    show ?thesis
      using optional_char_decimal [OF assms(1), of neg rest] ds(1)
      by (simp add: match_number_def Some 1 2 3 decimal_def)
  qed
qed

lemma float_of_token_decimal:
  assumes "well_formed ds fs"
  shows "float_of_token (decimal neg ds fs) = decimal_value neg ds fs"
proof -
  from assms have ds: "ds \<noteq> []" "list_all is_digit ds" by (simp_all add: well_formed_def)
  note o = optional_char_decimal [OF assms, of neg "[]", simplified]
  show ?thesis
  proof (cases fs)
    case None
    have t: "takeWhile is_digit ds = ds" "dropWhile is_digit ds = []"
      using takeWhile_run [OF ds(2), of "[]"] by simp_all
    show ?thesis
      using o by (simp add: float_of_token_def None decimal_value_def digits_val_def t)
  next
    case (Some f)
    have t: "takeWhile is_digit (ds @ CHR ''.'' # f) = ds"
            "dropWhile is_digit (ds @ CHR ''.'' # f) = CHR ''.'' # f"
      using takeWhile_run [OF ds(2), of "CHR ''.'' # f"] by simp_all
    show ?thesis
      using o by (simp add: float_of_token_def Some decimal_value_def t)
  qed
qed

lemma strip_core:
  assumes "list_all is_space pre" "list_all is_space post"
    and "s \<noteq> []" "\<not> is_space (hd s)" "\<not> is_space (last s)"
  shows "strip (pre @ s @ post) = s"
proof -
  have 1: "dropWhile is_space (pre @ s @ post) = s @ post"
    using takeWhile_run(2) [OF assms(1), of "s @ post"] assms(3,4) by simp
  have "rev (s @ post) = rev post @ rev s" by simp
  moreover have "dropWhile is_space (rev post @ rev s) = rev s"
    using takeWhile_run(2) [of is_space "rev post" "rev s"] assms(2,3,5)
    by (simp add: hd_rev list_all_iff)
  ultimately show ?thesis by (simp add: strip_def 1)
qed

lemma decimal_ends:
  assumes "well_formed ds fs"
  shows "decimal neg ds fs \<noteq> []" "\<not> is_space (hd (decimal neg ds fs))"
        "\<not> is_space (last (decimal neg ds fs))" "CHR '','' \<notin> set (decimal neg ds fs)"
proof -
  from assms have ds: "ds \<noteq> []" "list_all is_digit ds" by (simp_all add: well_formed_def)
  then have h: "is_digit (hd ds)" "is_digit (last ds)" by (auto simp: list_all_iff)
  show "decimal neg ds fs \<noteq> []" using ds by (simp add: decimal_def)
  show "\<not> is_space (hd (decimal neg ds fs))"
    using ds h digit_not_space by (simp add: decimal_def)
  show "\<not> is_space (last (decimal neg ds fs))"
  proof (cases fs)
    case None
    then show ?thesis using ds h digit_not_space by (simp add: decimal_def)
  next
    case (Some f)
    with assms have f: "list_all is_digit f" by (simp add: well_formed_def)
    show ?thesis
    proof (cases "f = []")
      case True
      then show ?thesis by (simp add: decimal_def Some)
    next
      case False
      with f have "is_digit (last f)" by (auto simp: list_all_iff)
      with False show ?thesis using digit_not_space by (simp add: decimal_def Some)
    qed
  qed
  show "CHR '','' \<notin> set (decimal neg ds fs)"
    using assms digit_not_comma
    by (auto simp: decimal_def well_formed_def list_all_iff split: option.splits)
qed

lemma split_on_none: "c \<notin> set s \<Longrightarrow> split_on c s = [s]"
  by (induction s) auto

lemma split_on_first: "c \<notin> set a \<Longrightarrow> split_on c (a @ c # r) = a # split_on c r"
  by (induction a) auto


lemma coord_match_decimals:
  assumes "well_formed ds1 fs1" "well_formed ds2 fs2" "list_all is_space ws"
  shows "coord_match (decimal n1 ds1 fs1 @ '','' @ ws @ decimal n2 ds2 fs2) =
         Some (decimal n1 ds1 fs1, decimal n2 ds2 fs2)"
proof -
  let ?a = "decimal n1 ds1 fs1" and ?b = "decimal n2 ds2 fs2"
  have 1: "match_number (?a @ CHR '','' # ws @ ?b) = Some (?a, CHR '','' # ws @ ?b)"
    by (rule match_number_decimal [OF assms(1)]) simp
  have 2: "dropWhile is_space (ws @ ?b) = ?b"
    using takeWhile_run(2) [OF assms(3), of ?b] decimal_ends(1,2) [OF assms(2), of n2] by simp
  have 3: "match_number ?b = Some (?b, [])"
    using match_number_decimal [OF assms(2), of "[]" n2] by simp
  show ?thesis by (simp add: coord_match_def 1 2 3)
qed

text \<open>
  C7, as the claim states it, fails: a plus sign is a sign, \<open>+40\<close> and \<open>50\<close> are within
  the ranges, and \<open>parse_location_input\<close> returns the place-name dictionary for
  \<open>+40,50\<close>. The pattern accepts the minus sign only.
\<close>

theorem parse_location_input_plus_sign:
  "parse_location_input exact_float ''+40,50'' =
     JDict [(''type'', JStr ''location''), (''city'', JStr ''+40''), (''country'', JStr ''50''),
            (''region'', JStr []), (''query'', JStr ''+40,50'')] \<and>
   validate_coordinates 40 50"
  by code_simp

text \<open>
  C7, amended. Take an input made of a number, a comma, optional white space and a second number,
  with optional white space around it, where a number is an optional minus sign, one or
  more digits and optionally a point followed by digits. If the two parsed values satisfy
  \<open>-90 \<le> latitude \<le> 90\<close> and \<open>-180 \<le> longitude \<le> 180\<close>, \<open>parse_location_input\<close> returns
  the coordinates dictionary that carries exactly these two values; otherwise it returns
  what place-name parsing gives for the same input: the first number as city, the second
  as country.
\<close>

theorem parse_location_input_coordinates:
  fixes n1 n2 :: bool and to_float :: "rat \<Rightarrow> rat"
  assumes "well_formed ds1 fs1" and "well_formed ds2 fs2"
    and "list_all is_space ws" and "list_all is_space pre" and "list_all is_space post"
  defines "a \<equiv> decimal n1 ds1 fs1" and "b \<equiv> decimal n2 ds2 fs2"
  defines "lat \<equiv> to_float (decimal_value n1 ds1 fs1)"
    and "lon \<equiv> to_float (decimal_value n2 ds2 fs2)"
  shows "parse_location_input to_float (pre @ a @ '','' @ ws @ b @ post) =
         (if - 90 \<le> lat \<and> lat \<le> 90 \<and> - 180 \<le> lon \<and> lon \<le> 180
          then JDict [(''type'', JStr ''coordinates''),
                      (''latitude'', JNum lat),
                      (''longitude'', JNum lon),
                      (''query'', JStr (a @ '','' @ ws @ b))]
          else JDict [(''type'', JStr ''location''),
                      (''city'', JStr a),
                      (''country'', JStr b),
                      (''region'', JStr []),
                      (''query'', JStr (a @ '','' @ ws @ b))])"
proof -
  let ?s = "a @ '','' @ ws @ b"
  note ea = decimal_ends [OF assms(1), of n1, folded a_def]
  note eb = decimal_ends [OF assms(2), of n2, folded b_def]
  have s: "strip (pre @ ?s @ post) = ?s"
    using strip_core [OF assms(4,5), of ?s] ea eb by simp
  have m: "coord_match ?s = Some (a, b)"
    unfolding a_def b_def by (rule coord_match_decimals [OF assms(1,2,3)])
  have f: "to_float (float_of_token a) = lat" "to_float (float_of_token b) = lon"
    by (simp_all add: a_def b_def lat_def lon_def float_of_token_decimal assms(1,2))
  have c: "CHR '','' \<in> set ?s" by simp
  have "CHR '','' \<notin> set (ws @ b)"
    using eb(4) assms(3) space_not_comma by (auto simp: list_all_iff)
  then have "split_on CHR '','' ?s = [a, ws @ b]"
    using split_on_first [OF ea(4), of "ws @ b"] by (simp add: split_on_none)
  moreover have "strip a = a"
    using strip_core [of "[]" "[]" a] ea by simp
  moreover have "strip (ws @ b) = b"
    using strip_core [OF assms(3), of "[]" b] eb by simp
  ultimately have p: "map strip (split_on CHR '','' ?s) = [a, b]" by simp
  have "parse_location_input to_float (pre @ ?s @ post) =
        (if validate_coordinates lat lon
         then JDict [(''type'', JStr ''coordinates''), (''latitude'', JNum lat),
                     (''longitude'', JNum lon), (''query'', JStr ?s)]
         else JDict [(''type'', JStr ''location''), (''city'', JStr a), (''country'', JStr b),
                     (''region'', JStr []), (''query'', JStr ?s)])"
    unfolding parse_location_input_def s Let_def m p using c by (simp add: f)
  then show ?thesis by (simp add: validate_coordinates_def)
qed


theorem parse_location_input_coordinates_witness:
  "parse_location_input (\<lambda>q. q) ''  40.5, -74.25 '' =
     JDict [(''type'', JStr ''coordinates''), (''latitude'', JNum (81 / 2)),
            (''longitude'', JNum (- (297 / 4))), (''query'', JStr ''40.5, -74.25'')] \<and>
   parse_location_input (\<lambda>q. q) ''91,-74.0'' =
     JDict [(''type'', JStr ''location''), (''city'', JStr ''91''), (''country'', JStr ''-74.0''),
            (''region'', JStr []), (''query'', JStr ''91,-74.0'')]"
proof -
  have sp: "list_all is_space ''  ''" "list_all is_space '' ''" "list_all is_space []"
    by (simp_all add: is_space_def)
  have w: "well_formed ''40'' (Some ''5'')" "well_formed ''74'' (Some ''25'')"
          "well_formed ''91'' None" "well_formed ''74'' (Some ''0'')"
    by (simp_all add: well_formed_def is_digit_def)
  have v: "decimal_value False ''40'' (Some ''5'') = 81 / 2"
          "decimal_value True ''74'' (Some ''25'') = - (297 / 4)"
          "decimal_value False ''91'' None = 91"
          "decimal_value True ''74'' (Some ''0'') = - 74"
    by (simp_all add: decimal_value_def digits_val_def digit_val_def)
  have 1: "parse_location_input (\<lambda>q. q) ''  40.5, -74.25 '' =
     JDict [(''type'', JStr ''coordinates''), (''latitude'', JNum (81 / 2)),
            (''longitude'', JNum (- (297 / 4))), (''query'', JStr ''40.5, -74.25'')]"
    using parse_location_input_coordinates [OF w(1) w(2) sp(2) sp(1) sp(2),
        of "\<lambda>q. q" False True]
    by (simp add: v decimal_def)
  have 2: "parse_location_input (\<lambda>q. q) ''91,-74.0'' =
     JDict [(''type'', JStr ''location''), (''city'', JStr ''91''), (''country'', JStr ''-74.0''),
            (''region'', JStr []), (''query'', JStr ''91,-74.0'')]"
    using parse_location_input_coordinates [OF w(3) w(4) sp(3) sp(3) sp(3),
        of "\<lambda>q. q" False True]
    by (simp add: v decimal_def)
  from 1 2 show ?thesis by simp
qed

section \<open>The cache and the request log\<close>

lemma cache_weather_data_rows:
  assumes "timedelta_minutes ttl_minutes = Inr delta" and "datetime_add now delta = Inr expires_at"
  shows "weather_cache (snd (cache_weather_data no_fault now db location_key data_type
                               weather_data ttl_minutes)) =
         filter (\<lambda>r. row_location_key r \<noteq> location_key) (weather_cache db) @
         [\<lparr>row_id = weather_cache_seq db + 1, row_location_key = location_key,
           row_data_type = data_type, row_weather_data = weather_data,
           row_expires_at = expires_at, row_created_at = now\<rparr>]"
  using assms
  by (simp add: cache_weather_data_def cache_weather_data_try_def insert_or_replace_cache_def
      no_fault_def Let_def)

lemma cache_weather_data_one_row_per_location:
  assumes "timedelta_minutes ttl_minutes = Inr delta" and "datetime_add now delta = Inr expires_at"
  shows "length (filter (\<lambda>r. row_location_key r = location_key)
           (weather_cache (snd (cache_weather_data no_fault now db location_key data_type
                                  weather_data ttl_minutes)))) = 1"
proof -
  have "filter (\<lambda>r. row_location_key r = location_key)
          (filter (\<lambda>r. row_location_key r \<noteq> location_key) (weather_cache db)) = []"
    by (simp add: filter_empty_conv)
  then show ?thesis by (simp add: cache_weather_data_rows [OF assms])
qed

text \<open>
  C2. The conflict that \<open>INSERT OR REPLACE\<close> resolves is on \<open>location_key\<close> alone, while
  \<open>get_cached_weather_data\<close> reads by \<open>location_key\<close> and \<open>data_type\<close>. After the current
  conditions of \<open>paris\<close> and then its 7-day forecast are cached, the cache holds one row,
  the forecast is read back, and the read of the current conditions, still within their
  time to live, is a miss.
\<close>

theorem cache_write_evicts_other_data_type:
  "map row_data_type (weather_cache paris_then_forecast) = [''forecast7d''] \<and>
   get_cached_weather_data no_fault 2 paris_then_forecast ''paris'' ''forecast7d'' =
     Inr (JList [JDict [(''temp_max'', JNum 21)]]) \<and>
   get_cached_weather_data no_fault 2 paris_then_forecast ''paris'' ''current'' = Inr JNull \<and>
   get_cached_weather_data no_fault 2
     (snd (cache_weather_data no_fault 0 empty_database ''paris'' ''current''
             (JDict [(''temperature'', JNum 18)]) 10))
     ''paris'' ''current'' = Inr (JDict [(''temperature'', JNum 18)])"
  by code_simp

text \<open>
  C9. \<open>cache_weather_data\<close>, \<open>get_cached_weather_data\<close> and \<open>log_weather_request\<close> never
  raise, whatever the inputs and whichever steps fail: each returns a value. Whenever the
  \<open>try\<close> block of a write raises, the write returns \<open>False\<close>, and whenever the \<open>try\<close>
  block of the read raises, the read returns \<open>None\<close>, the value it also returns for a
  miss; in particular so when a step of the storage fails.
\<close>

theorem persistence_never_raises:
  "(\<exists>b. fst (cache_weather_data fault now db location_key data_type weather_data ttl_minutes) =
          Inr b) \<and>
   (\<exists>b. fst (log_weather_request fault now db user_id location request_type response_time
               success error_message) = Inr b) \<and>
   (\<exists>v. get_cached_weather_data fault now db location_key data_type = Inr v) \<and>
   (\<forall>e. fst (cache_weather_data_try fault now db location_key data_type weather_data
               ttl_minutes) = Inl e \<longrightarrow>
        fst (cache_weather_data fault now db location_key data_type weather_data ttl_minutes) =
          Inr False) \<and>
   (\<forall>e. fst (log_weather_request_try fault now db user_id location request_type response_time
               success error_message) = Inl e \<longrightarrow>
        fst (log_weather_request fault now db user_id location request_type response_time
               success error_message) = Inr False) \<and>
   (\<forall>e. get_cached_weather_data_try fault now db location_key data_type = Inl e \<longrightarrow>
        get_cached_weather_data fault now db location_key data_type = Inr JNull) \<and>
   (fault Connect \<or> fault Dumps \<or> fault Execute \<or> fault Commit \<longrightarrow>
      fst (cache_weather_data fault now db location_key data_type weather_data ttl_minutes) =
        Inr False) \<and>
   (fault Connect \<or> fault Execute \<or> fault Commit \<longrightarrow>
      fst (log_weather_request fault now db user_id location request_type response_time
             success error_message) = Inr False) \<and>
   (fault Connect \<or> fault Execute \<or> fault Fetch \<longrightarrow>
      get_cached_weather_data fault now db location_key data_type = Inr JNull)"
proof -
  obtain r db' where c: "cache_weather_data_try fault now db location_key data_type weather_data
                           ttl_minutes = (r, db')"
    by (cases "cache_weather_data_try fault now db location_key data_type weather_data
                 ttl_minutes")
  obtain q db'' where l: "log_weather_request_try fault now db user_id location request_type
                            response_time success error_message = (q, db'')"
    by (cases "log_weather_request_try fault now db user_id location request_type
                 response_time success error_message")
  have 1: "\<exists>b. fst (cache_weather_data fault now db location_key data_type weather_data
                      ttl_minutes) = Inr b"
    by (cases r) (auto simp: cache_weather_data_def c)
  have 2: "\<exists>b. fst (log_weather_request fault now db user_id location request_type response_time
                      success error_message) = Inr b"
    by (cases q) (auto simp: log_weather_request_def l)
  have 3: "\<exists>v. get_cached_weather_data fault now db location_key data_type = Inr v"
    by (simp add: get_cached_weather_data_def split: sum.splits)
  have 4: "fst (cache_weather_data fault now db location_key data_type weather_data ttl_minutes) =
             Inr False"
    if "fst (cache_weather_data_try fault now db location_key data_type weather_data
               ttl_minutes) = Inl e" for e
    using that by (simp add: cache_weather_data_def c)
  have 5: "fst (log_weather_request fault now db user_id location request_type response_time
                  success error_message) = Inr False"
    if "fst (log_weather_request_try fault now db user_id location request_type response_time
               success error_message) = Inl e" for e
    using that by (simp add: log_weather_request_def l)
  have 6: "get_cached_weather_data fault now db location_key data_type = Inr JNull"
    if "get_cached_weather_data_try fault now db location_key data_type = Inl e" for e
    using that by (simp add: get_cached_weather_data_def)
  have 7: "fst (cache_weather_data fault now db location_key data_type weather_data ttl_minutes) =
             Inr False"
    if "fault Connect \<or> fault Dumps \<or> fault Execute \<or> fault Commit"
    using that
    by (auto simp: cache_weather_data_def cache_weather_data_try_def Let_def split: sum.splits)
  have 8: "fst (log_weather_request fault now db user_id location request_type response_time
                  success error_message) = Inr False"
    if "fault Connect \<or> fault Execute \<or> fault Commit"
    using that by (auto simp: log_weather_request_def log_weather_request_try_def Let_def)
  have 9: "get_cached_weather_data fault now db location_key data_type = Inr JNull"
    if "fault Connect \<or> fault Execute \<or> fault Fetch"
    using that
    by (auto simp: get_cached_weather_data_def get_cached_weather_data_try_def Let_def)
  from 1 2 3 4 5 6 7 8 9 show ?thesis by blast
qed

text \<open>
  Every step failing; a time to live of \<open>10 ** 10\<close> minutes on a healthy store, where the
  expiry is past \<open>datetime.max\<close>; and a miss on a healthy store.
\<close>

theorem persistence_never_raises_witness:
  "fst (cache_weather_data every_step_fails 0 empty_database ''paris'' ''current'' JNull 10) =
     Inr False \<and>
   fst (log_weather_request every_step_fails 0 empty_database 7 ''paris'' ''current'' (1 / 2)
          True None) = Inr False \<and>
   get_cached_weather_data every_step_fails 0 empty_database ''paris'' ''current'' = Inr JNull \<and>
   fst (cache_weather_data_try no_fault 0 empty_database ''paris'' ''current'' JNull
          10000000000) = Inl OverflowError \<and>
   fst (cache_weather_data no_fault 0 empty_database ''paris'' ''current'' JNull 10000000000) =
     Inr False \<and>
   get_cached_weather_data no_fault 0 empty_database ''paris'' ''current'' = Inr JNull"
proof -
  have f: "every_step_fails Connect" by (simp add: every_step_fails_def)
  have o: "fst (cache_weather_data_try no_fault 0 empty_database ''paris'' ''current'' JNull
                  10000000000) = Inl OverflowError"
    by code_simp
  have m: "get_cached_weather_data no_fault 0 empty_database ''paris'' ''current'' = Inr JNull"
    by code_simp
  note a = persistence_never_raises [of every_step_fails 0 empty_database "''paris''"
      "''current''" JNull 10 7 "''paris''" "''current''" "1 / 2" True None]
  note b = persistence_never_raises [of no_fault 0 empty_database "''paris''"
      "''current''" JNull 10000000000 7 "''paris''" "''current''" "1 / 2" True None]
  from b o have "fst (cache_weather_data no_fault 0 empty_database ''paris'' ''current'' JNull
                        10000000000) = Inr False"
    by blast
  with a f o m show ?thesis by blast
qed

section \<open>The weather requests\<close>

lemma log_weather_request_appends_one:
  "length (weather_requests (snd (log_weather_request no_fault now db user_id location
     request_type response_time success error_message))) = length (weather_requests db) + 1"
  by (simp add: log_weather_request_def log_weather_request_try_def no_fault_def Let_def)

lemma send_weather_info_db:
  "bot_db (send_weather_info py_str net current_hour api_key self location user_lang) =
   bot_db self"
  by (simp add: send_weather_info_def Let_def split: sum.splits)

lemma show_result_db: "bot_db (show_result self user_lang attempt) = bot_db self"
  by (simp add: show_result_def split: sum.splits)

lemma handle_request_db:
  "bot_db (fst (handle_request fault py_str net current_hour api_key self request)) = bot_db self"
proof (cases request)
  case (WeatherCommand chat_id args)
  then show ?thesis by (simp add: weather_command_def Let_def send_weather_info_db)
next
  case (LocationMessage chat_id message)
  then show ?thesis by (simp add: handle_location_message_def Let_def send_weather_info_db)
next
  case (RefreshCallback chat_id data)
  then show ?thesis by (simp add: send_weather_callback_def Let_def send_weather_info_db)
next
  case (ForecastCallback chat_id data)
  then show ?thesis
    by (simp add: forecast_callback_def Let_def show_result_db split: sum.splits)
next
  case (AirQualityCallback chat_id data)
  then show ?thesis by (simp add: air_quality_callback_def Let_def show_result_db)
next
  case (AlertsCallback chat_id data)
  then show ?thesis by (simp add: alerts_callback_def Let_def show_result_db)
qed

lemma send_weather_info_timed_out:
  assumes "\<forall>k endpoint params. net k endpoint params = TransportFault"
  shows "bot_chat (send_weather_info py_str net current_hour api_key self location user_lang) =
         bot_chat self @ [ReplyText (LoadingText user_lang), EditText (NoDataText user_lang)]"
proof -
  from assms have "make_request (net k) api_key endpoint params = JNull" for k endpoint params
    by (simp add: make_request_def)
  then show ?thesis
    by (simp add: send_weather_info_def Let_def get_current_weather_def
        get_12hour_forecast_def get_7day_forecast_def get_air_quality_def
        current_weather_of_def forecast_12hour_of_def forecast_7day_of_def air_quality_of_def
        and_then_simps format_current_weather_def)
qed

text \<open>
  A \<open>null\<close> temperature makes \<open>format_temperature\<close> raise \<open>TypeError\<close>; the handler
  replies with the error text, and here too the request log stays empty.
\<close>

lemma send_weather_info_null_temperature:
  "send_weather_info str_of_text (every_call (always null_temperature)) 9 ''key'' new_bot
     ''Paris'' ''en'' =
   \<lparr>bot_db = empty_database,
    bot_chat = [ReplyText (LoadingText ''en''), ReplyText (ErrorText ''en'' TypeError)]\<rparr>"
  by code_simp

text \<open>
  C1, as the claim states it, fails: when every fetch of a request times out,
  \<open>send_weather_info\<close> shows the no-data text and the request log, empty before, is empty
  after; no record with \<open>success = false\<close> is written.
\<close>

theorem send_weather_info_timeout_writes_no_record:
  "weather_requests (bot_db new_bot) = [] \<and>
   send_weather_info str_of_text (every_call timed_out) 9 ''key'' new_bot ''Paris'' ''en'' =
     \<lparr>bot_db = empty_database,
      bot_chat = [ReplyText (LoadingText ''en''), EditText (NoDataText ''en'')]\<rparr> \<and>
   weather_requests empty_database = []"
  by code_simp

text \<open>
  C1, amended. No weather request writes a record to the request log or measures a
  duration: for every request that \<open>main.py\<close> handles (the \<open>/weather\<close> command, a location
  or text message, and the refresh, forecast, air-quality and alerts callbacks, so every
  view), every location, language and behaviour of the provider and of the storage, the
  store after the handler is the store before it, and so is the request log; the same
  holds of \<open>send_weather_info\<close> itself. A request for the current view whose fetches all
  fail at the transport ends with the no-data text as its failure result.
\<close>

theorem weather_requests_write_no_record:
  "bot_db (fst (handle_request fault py_str net current_hour api_key self request)) =
     bot_db self \<and>
   weather_requests
     (bot_db (fst (handle_request fault py_str net current_hour api_key self request))) =
     weather_requests (bot_db self) \<and>
   bot_db (send_weather_info py_str net current_hour api_key self location user_lang) =
     bot_db self \<and>
   weather_requests
     (bot_db (send_weather_info py_str net current_hour api_key self location user_lang)) =
     weather_requests (bot_db self) \<and>
   ((\<forall>k endpoint params. net k endpoint params = TransportFault) \<longrightarrow>
      bot_chat (send_weather_info py_str net current_hour api_key self location user_lang) =
        bot_chat self @ [ReplyText (LoadingText user_lang), EditText (NoDataText user_lang)])"
  using send_weather_info_timed_out [of net py_str current_hour api_key self location user_lang]
  by (simp add: handle_request_db send_weather_info_db)

theorem weather_requests_write_no_record_witness:
  "(\<forall>k endpoint params. every_call timed_out k endpoint params = TransportFault) \<and>
   weather_requests
     (bot_db (fst (handle_request no_fault str_of_text (every_call timed_out) 9 ''key'' new_bot
                     (ForecastCallback 7 ''forecast_12h_Paris'')))) =
     weather_requests (bot_db new_bot) \<and>
   weather_requests
     (bot_db (send_weather_info str_of_text (every_call timed_out) 9 ''key'' new_bot ''Paris''
                ''en'')) = weather_requests (bot_db new_bot) \<and>
   bot_chat (send_weather_info str_of_text (every_call timed_out) 9 ''key'' new_bot ''Paris''
               ''en'') =
     bot_chat new_bot @ [ReplyText (LoadingText ''en''), EditText (NoDataText ''en'')] \<and>
   handle_request no_fault str_of_text (every_call timed_out) 9 ''key'' new_bot
     (ForecastCallback 7 ''forecast_12h_Paris'') =
     (\<lparr>bot_db = empty_database, bot_chat = [EditText (NoDataText ''en'')]\<rparr>, None)"
proof -
  have h: "\<forall>k endpoint params. every_call timed_out k endpoint params = TransportFault"
    by (simp add: every_call_def timed_out_def)
  have c: "handle_request no_fault str_of_text (every_call timed_out) 9 ''key'' new_bot
             (ForecastCallback 7 ''forecast_12h_Paris'') =
           (\<lparr>bot_db = empty_database, bot_chat = [EditText (NoDataText ''en'')]\<rparr>, None)"
    by code_simp
  from weather_requests_write_no_record [of no_fault str_of_text "every_call timed_out" 9
      "''key''" new_bot "ForecastCallback 7 ''forecast_12h_Paris''" "''Paris''" "''en''"] h c
  show ?thesis by blast
qed


end
